theory Spec2Isabelle
  imports Complex_Main "HOL-Library.Word" "HOL-Library.Signed_Division"
begin

unbundle bit_operations_syntax

section \<open>Machine values, errors, buffers and streams\<close>

text \<open>
  The source is \<^verbatim>\<open>src/quantmatrix.cc\<close> of fastText: the class \<^verbatim>\<open>QuantMatrix\<close>, a matrix
  whose rows are stored as product-quantization codes. The C++ integer types are words;
  \<^verbatim>\<open>sint\<close> reads them. Signed overflow, undefined in C++, wraps in the model, and the
  theorems about sizes state the range in which it does not happen. The C++ type
  \<^verbatim>\<open>real\<close> (a float) is the HOL type of reals: the only law of arithmetic used below is
  \<open>1 * x = x\<close>.
\<close>

type_synonym u8 = "8 word"
type_synonym int32 = "32 word"
type_synonym int64 = "64 word"

text \<open>
  Every way in which a call leaves without a value is an error value. The first two are
  what the source itself raises: \<open>AssertionFailed\<close> is the abort of an \<^verbatim>\<open>assert\<close> whose
  condition is false (the file includes \<^verbatim>\<open>assert.h\<close> and does not define \<^verbatim>\<open>NDEBUG\<close>), and
  \<open>RuntimeError\<close> is a \<^verbatim>\<open>std::runtime_error\<close> with its message. The next four are
  undefined or library behaviour of the C++ operations it uses. \<open>InvalidArgument\<close> is
  never raised by this file and is there for the collaborators.
\<close>

datatype error =
    AssertionFailed
  | RuntimeError string
  | LengthError
  | DivisionByZero
  | NullDereference
  | OutOfBounds
  | InvalidArgument string

fun bind_result :: "error + 'a \<Rightarrow> ('a \<Rightarrow> error + 'b) \<Rightarrow> error + 'b" where
  "bind_result (Inl e) f = Inl e"
| "bind_result (Inr x) f = f x"

text \<open>The \<^verbatim>\<open>/\<close> of C++ on \<^verbatim>\<open>int64_t\<close>: the quotient is truncated towards zero.\<close>

definition int64_div :: "int64 \<Rightarrow> int64 \<Rightarrow> int64" where
  "int64_div a b = word_of_int (sint a sdiv sint b)"

text \<open>
  \<^verbatim>\<open>v.resize(n)\<close> and \<^verbatim>\<open>std::vector<T>(n)\<close> with a signed \<open>n\<close>: a negative \<open>n\<close> becomes
  a size beyond \<^verbatim>\<open>max_size()\<close> and the library throws \<^verbatim>\<open>std::length_error\<close>; new elements
  are value-initialised.
\<close>

definition vector_resize :: "'a list \<Rightarrow> int64 \<Rightarrow> 'a \<Rightarrow> error + 'a list" where
  "vector_resize xs n z =
     (if sint n < 0 then Inl LengthError
      else Inr (take (nat (sint n)) xs @ replicate (nat (sint n) - length xs) z))"

text \<open>
  A callee that fills a buffer through a raw pointer (\<^verbatim>\<open>codes_.data()\<close>) overwrites its
  first elements and cannot change its size; writing more than the buffer holds is
  undefined.
\<close>

definition write_at :: "'a list \<Rightarrow> 'a list \<Rightarrow> error + 'a list" where
  "write_at buf new =
     (if length new \<le> length buf then Inr (new @ drop (length new) buf)
      else Inl OutOfBounds)"

text \<open>
  \<^verbatim>\<open>out.write((char*)v.data(), n)\<close> reads \<open>n\<close> bytes of the buffer; more than the buffer
  holds is undefined, and a count that is not positive writes nothing.
\<close>

definition read_bytes :: "u8 list \<Rightarrow> int64 \<Rightarrow> error + u8 list" where
  "read_bytes buf n =
     (if nat (sint n) \<le> length buf then Inr (take (nat (sint n)) buf)
      else Inl OutOfBounds)"

text \<open>
  The scalar fields are written as their bytes in memory: one byte for \<^verbatim>\<open>bool\<close>, eight
  bytes, least significant first, for the integers.
\<close>

definition enc_bool :: "bool \<Rightarrow> u8 list" where
  "enc_bool b = [if b then 1 else 0]"

definition dec_bool :: "u8 list \<Rightarrow> bool" where
  "dec_bool bs = (case bs of [] \<Rightarrow> False | b # _ \<Rightarrow> b \<noteq> 0)"

fun le_bytes :: "nat \<Rightarrow> int64 \<Rightarrow> u8 list" where
  "le_bytes 0 w = []"
| "le_bytes (Suc k) w = ucast w # le_bytes k (drop_bit 8 w)"

definition enc64 :: "int64 \<Rightarrow> u8 list" where
  "enc64 w = le_bytes 8 w"

fun dec64 :: "u8 list \<Rightarrow> int64" where
  "dec64 [] = 0"
| "dec64 (b # bs) = ucast b OR push_bit 8 (dec64 bs)"

text \<open>
  An input stream is the bytes not yet read and its fail bit. \<^verbatim>\<open>in.read(p, n)\<close> on a
  failed stream stores nothing; on a stream with fewer than \<open>n\<close> bytes it stores the
  bytes there are, leaves the rest of the target as it was and sets the fail bit. The
  target is given by its bytes before the call, \<open>old\<close>, and \<open>n = length old\<close>.
\<close>

record istream =
  content :: "u8 list"
  failed :: bool

definition stream_read :: "istream \<Rightarrow> u8 list \<Rightarrow> u8 list \<times> istream" where
  "stream_read s old =
     (if failed s then (old, s)
      else if length old \<le> length (content s)
      then (take (length old) (content s), s\<lparr>content := drop (length old) (content s)\<rparr>)
      else (content s @ drop (length (content s)) old, \<lparr>content = [], failed = True\<rparr>))"

definition good_stream :: "u8 list \<Rightarrow> istream" where
  "good_stream bs = \<lparr>content = bs, failed = False\<rparr>"

section \<open>The collaborators\<close>

text \<open>
  Modelled from the spec: the dense matrix class (\<^verbatim>\<open>DenseMatrix\<close>, with \<^verbatim>\<open>size(0)\<close>,
  \<^verbatim>\<open>size(1)\<close> and \<^verbatim>\<open>data()\<close>) is not among the sources; the spec describes it as a dense
  2-D array of reals with a row count and a column count.
\<close>

record DenseMatrix =
  dm_size0 :: int64
  dm_size1 :: int64
  dm_data :: "real list"

text \<open>
  The operations of \<^verbatim>\<open>DenseMatrix\<close> and \<^verbatim>\<open>ProductQuantizer\<close> that the source calls are
  parameters: \<open>'pq\<close> is the state of a quantizer. Integer arguments are passed as their
  values. \<^verbatim>\<open>l2NormRow\<close> gets the vector it fills and returns it filled; \<^verbatim>\<open>compute_codes\<close>
  returns the codes it writes from the start of its output buffer; \<^verbatim>\<open>get_centroids\<close>
  returns the reals that its result points to; \<^verbatim>\<open>addcode\<close> returns the accumulator
  after the call; \<^verbatim>\<open>save\<close> returns the bytes it appends; \<^verbatim>\<open>train\<close> and \<^verbatim>\<open>load\<close> may
  throw.
\<close>

record 'pq collaborators =
  l2NormRow :: "DenseMatrix \<Rightarrow> real list \<Rightarrow> real list"
  divideRow :: "DenseMatrix \<Rightarrow> real list \<Rightarrow> DenseMatrix"
  pq_new :: "int \<Rightarrow> int \<Rightarrow> 'pq"
  pq_default :: "'pq"
  pq_train :: "'pq \<Rightarrow> int \<Rightarrow> real list \<Rightarrow> error + 'pq"
  pq_compute_codes :: "'pq \<Rightarrow> real list \<Rightarrow> int \<Rightarrow> u8 list"
  pq_get_centroids :: "'pq \<Rightarrow> int \<Rightarrow> u8 \<Rightarrow> real list"
  pq_mulcode :: "'pq \<Rightarrow> real list \<Rightarrow> u8 list \<Rightarrow> int \<Rightarrow> real \<Rightarrow> real"
  pq_addcode :: "'pq \<Rightarrow> real list \<Rightarrow> u8 list \<Rightarrow> int \<Rightarrow> real \<Rightarrow> real list"
  pq_save :: "'pq \<Rightarrow> u8 list"
  pq_load :: "'pq \<Rightarrow> istream \<Rightarrow> error + ('pq \<times> istream)"

section \<open>QuantMatrix\<close>

text \<open>
  The fields of the class: the source's \<^verbatim>\<open>m_\<close> is \<open>qm_m\<close> here, and so on, a name that
  ends in an underscore not being one of Isabelle's. The two \<^verbatim>\<open>unique_ptr\<close> are options.
  The widths of \<^verbatim>\<open>m_\<close>, \<^verbatim>\<open>n_\<close> and \<^verbatim>\<open>codesize_\<close>, declared in a header that is not
  among the sources, are the 64 bits of the spec's file layout.
\<close>

record 'pq quant_matrix =
  qm_m :: int64
  qm_n :: int64
  qm_pq :: "'pq option"
  qm_npq :: "'pq option"
  qm_codes :: "u8 list"
  qm_norm_codes :: "u8 list"
  qm_qnorm :: bool
  qm_codesize :: int64

text \<open>\<^verbatim>\<open>QuantMatrix::QuantMatrix()\<close>\<close>

definition QuantMatrix_default :: "'pq quant_matrix" where
  "QuantMatrix_default =
     \<lparr>qm_m = 0, qm_n = 0, qm_pq = None, qm_npq = None, qm_codes = [], qm_norm_codes = [],
      qm_qnorm = False, qm_codesize = 0\<rparr>"

text \<open>\<^verbatim>\<open>QuantMatrix::quantizeNorm\<close>\<close>

definition quantizeNorm ::
  "'pq collaborators \<Rightarrow> 'pq quant_matrix \<Rightarrow> real list \<Rightarrow> error + 'pq quant_matrix" where
  "quantizeNorm env qm norms =
     (if \<not> qm_qnorm qm then Inl AssertionFailed
      else if int (length norms) \<noteq> sint (qm_m qm) then Inl AssertionFailed
      else case qm_npq qm of
        None \<Rightarrow> Inl NullDereference
      | Some npq \<Rightarrow>
          bind_result (pq_train env npq (sint (qm_m qm)) norms) (\<lambda>npq'.
          bind_result
            (write_at (qm_norm_codes qm) (pq_compute_codes env npq' norms (sint (qm_m qm))))
            (\<lambda>nc. Inr (qm\<lparr>qm_npq := Some npq', qm_norm_codes := nc\<rparr>))))"

text \<open>The last three lines of \<^verbatim>\<open>QuantMatrix::quantize\<close>, on the main quantizer.\<close>

definition quantize_main ::
  "'pq collaborators \<Rightarrow> 'pq quant_matrix \<Rightarrow> DenseMatrix \<Rightarrow> error + 'pq quant_matrix" where
  "quantize_main env qm mat =
     (case qm_pq qm of
        None \<Rightarrow> Inl NullDereference
      | Some pq \<Rightarrow>
          bind_result (pq_train env pq (sint (qm_m qm)) (dm_data mat)) (\<lambda>pq'.
          bind_result
            (write_at (qm_codes qm) (pq_compute_codes env pq' (dm_data mat) (sint (qm_m qm))))
            (\<lambda>cs. Inr (qm\<lparr>qm_pq := Some pq', qm_codes := cs\<rparr>))))"

text \<open>
  \<^verbatim>\<open>QuantMatrix::quantize\<close>. \<^verbatim>\<open>Vector norms(mat.size(0))\<close> is a new vector of that many
  zeros.
\<close>

definition quantize ::
  "'pq collaborators \<Rightarrow> 'pq quant_matrix \<Rightarrow> DenseMatrix \<Rightarrow> error + 'pq quant_matrix" where
  "quantize env qm mat =
     (if qm_qnorm qm then
        bind_result (vector_resize [] (dm_size0 mat) 0) (\<lambda>norms0.
          let norms = l2NormRow env mat norms0;
              mat' = divideRow env mat norms
          in bind_result (quantizeNorm env qm norms) (\<lambda>qm'. quantize_main env qm' mat'))
      else quantize_main env qm mat)"

text \<open>\<^verbatim>\<open>QuantMatrix::QuantMatrix(DenseMatrix&&, int32_t, bool)\<close>\<close>

definition QuantMatrix ::
  "'pq collaborators \<Rightarrow> DenseMatrix \<Rightarrow> int32 \<Rightarrow> bool \<Rightarrow> error + 'pq quant_matrix" where
  "QuantMatrix env mat dsub qnorm =
     (if dsub = 0 then Inl DivisionByZero
      else
        let m = dm_size0 mat;
            n = dm_size1 mat;
            codesize = m * int64_div (n + scast dsub - 1) (scast dsub)
        in bind_result (vector_resize [] codesize 0) (\<lambda>codes.
           bind_result (if qnorm then vector_resize [] m 0 else Inr []) (\<lambda>norm_codes.
           quantize env
             \<lparr>qm_m = m, qm_n = n,
              qm_pq = Some (pq_new env (sint n) (sint dsub)),
              qm_npq = (if qnorm then Some (pq_new env 1 1) else None),
              qm_codes = codes, qm_norm_codes = norm_codes,
              qm_qnorm = qnorm, qm_codesize = codesize\<rparr>
             mat)))"

text \<open>
  The block that \<^verbatim>\<open>dotRow\<close> and both \<^verbatim>\<open>addRowToVector\<close> start with:
  \<^verbatim>\<open>real norm = 1; if (qnorm_) { norm = npq_->get_centroids(0, norm_codes_[i])[0]; }\<close>
\<close>

definition row_norm :: "'pq collaborators \<Rightarrow> 'pq quant_matrix \<Rightarrow> int \<Rightarrow> error + real" where
  "row_norm env qm i =
     (if \<not> qm_qnorm qm then Inr 1
      else case qm_npq qm of
        None \<Rightarrow> Inl NullDereference
      | Some npq \<Rightarrow>
          if 0 \<le> i \<and> i < int (length (qm_norm_codes qm))
          then (case pq_get_centroids env npq 0 (qm_norm_codes qm ! nat i) of
                  [] \<Rightarrow> Inl OutOfBounds
                | c # _ \<Rightarrow> Inr c)
          else Inl OutOfBounds)"

text \<open>\<^verbatim>\<open>QuantMatrix::dotRow\<close>\<close>

definition dotRow ::
  "'pq collaborators \<Rightarrow> 'pq quant_matrix \<Rightarrow> real list \<Rightarrow> int64 \<Rightarrow> error + real" where
  "dotRow env qm vec i =
     (if \<not> 0 \<le> sint i then Inl AssertionFailed
      else if \<not> sint i < sint (qm_m qm) then Inl AssertionFailed
      else if int (length vec) \<noteq> sint (qm_n qm) then Inl AssertionFailed
      else bind_result (row_norm env qm (sint i)) (\<lambda>norm.
        case qm_pq qm of
          None \<Rightarrow> Inl NullDereference
        | Some pq \<Rightarrow> Inr (pq_mulcode env pq vec (qm_codes qm) (sint i) norm)))"

text \<open>
  \<^verbatim>\<open>QuantMatrix::addVectorToRow\<close>: the result and the instance after the call.
\<close>

definition addVectorToRow ::
  "'pq quant_matrix \<Rightarrow> real list \<Rightarrow> int64 \<Rightarrow> real \<Rightarrow> (error + unit) \<times> 'pq quant_matrix" where
  "addVectorToRow qm vec i a =
     (Inl (RuntimeError ''Operation not permitted on quantized matrices.''), qm)"

text \<open>
  \<^verbatim>\<open>QuantMatrix::addRowToVector(Vector&, int32_t, real)\<close>: the accumulator after the call.
\<close>

definition addRowToVector_scaled ::
  "'pq collaborators \<Rightarrow> 'pq quant_matrix \<Rightarrow> real list \<Rightarrow> int32 \<Rightarrow> real \<Rightarrow> error + real list"
  where
  "addRowToVector_scaled env qm x i a =
     bind_result (row_norm env qm (sint i)) (\<lambda>norm.
       case qm_pq qm of
         None \<Rightarrow> Inl NullDereference
       | Some pq \<Rightarrow> Inr (pq_addcode env pq x (qm_codes qm) (sint i) (a * norm)))"

text \<open>\<^verbatim>\<open>QuantMatrix::addRowToVector(Vector&, int32_t)\<close>\<close>

definition addRowToVector ::
  "'pq collaborators \<Rightarrow> 'pq quant_matrix \<Rightarrow> real list \<Rightarrow> int32 \<Rightarrow> error + real list" where
  "addRowToVector env qm x i =
     bind_result (row_norm env qm (sint i)) (\<lambda>norm.
       case qm_pq qm of
         None \<Rightarrow> Inl NullDereference
       | Some pq \<Rightarrow> Inr (pq_addcode env pq x (qm_codes qm) (sint i) norm))"

text \<open>
  \<^verbatim>\<open>QuantMatrix::save\<close>: the output stream is the bytes written so far, and the result
  is the stream after the call.
\<close>

definition save :: "'pq collaborators \<Rightarrow> 'pq quant_matrix \<Rightarrow> u8 list \<Rightarrow> error + u8 list" where
  "save env qm out =
     (let out1 = out @ enc_bool (qm_qnorm qm);
          out2 = out1 @ enc64 (qm_m qm);
          out3 = out2 @ enc64 (qm_n qm);
          out4 = out3 @ enc64 (qm_codesize qm)
      in bind_result (read_bytes (qm_codes qm) (qm_codesize qm)) (\<lambda>cs.
         case qm_pq qm of
           None \<Rightarrow> Inl NullDereference
         | Some pq \<Rightarrow>
             let out6 = (out4 @ cs) @ pq_save env pq
             in if qm_qnorm qm then
                  bind_result (read_bytes (qm_norm_codes qm) (qm_m qm)) (\<lambda>ns.
                    case qm_npq qm of
                      None \<Rightarrow> Inl NullDereference
                    | Some npq \<Rightarrow> Inr ((out6 @ ns) @ pq_save env npq))
                else Inr out6))"

text \<open>
  \<^verbatim>\<open>QuantMatrix::load\<close>: the instance and the stream after the call. No read is
  checked.
\<close>

definition load ::
  "'pq collaborators \<Rightarrow> 'pq quant_matrix \<Rightarrow> istream \<Rightarrow> error + ('pq quant_matrix \<times> istream)"
  where
  "load env qm s0 =
     (let (b, s1) = stream_read s0 (enc_bool (qm_qnorm qm));
          (bm, s2) = stream_read s1 (enc64 (qm_m qm));
          (bn, s3) = stream_read s2 (enc64 (qm_n qm));
          (bc, s4) = stream_read s3 (enc64 (qm_codesize qm));
          qm4 = qm\<lparr>qm_qnorm := dec_bool b, qm_m := dec64 bm, qm_n := dec64 bn,
                   qm_codesize := dec64 bc\<rparr>
      in bind_result (vector_resize [] (qm_codesize qm4) 0) (\<lambda>codes0.
         let (cs, s5) = stream_read s4 codes0
         in bind_result (pq_load env (pq_default env) s5) (\<lambda>(pq, s6).
            let qm6 = qm4\<lparr>qm_codes := cs, qm_pq := Some pq\<rparr>
            in if qm_qnorm qm6 then
                 bind_result (vector_resize [] (qm_m qm6) 0) (\<lambda>norm_codes0.
                 let (ns, s7) = stream_read s6 norm_codes0
                 in bind_result (pq_load env (pq_default env) s7) (\<lambda>(npq, s8).
                    Inr (qm6\<lparr>qm_norm_codes := ns, qm_npq := Some npq\<rparr>, s8)))
               else Inr (qm6, s6))))"

text \<open>\<^verbatim>\<open>QuantMatrix::dump\<close>: the result and the output stream after the call.\<close>

definition dump :: "'pq quant_matrix \<Rightarrow> u8 list \<Rightarrow> (error + unit) \<times> u8 list" where
  "dump qm out =
     (Inl (RuntimeError ''Operation not permitted on quantized matrices.''), out)"

section \<open>The state of an instance\<close>

text \<open>
  What the constructor and \<^verbatim>\<open>load\<close> into a new instance establish: the main quantizer
  is there, the code buffer has \<^verbatim>\<open>codesize_\<close> bytes, and the norm quantizer and its
  \<^verbatim>\<open>m_\<close> codes are there under the flag and not there without it.
\<close>

definition qm_inv :: "'pq quant_matrix \<Rightarrow> bool" where
  "qm_inv qm =
     (qm_pq qm \<noteq> None \<and> int (length (qm_codes qm)) = sint (qm_codesize qm) \<and>
      (if qm_qnorm qm
       then qm_npq qm \<noteq> None \<and> int (length (qm_norm_codes qm)) = sint (qm_m qm)
       else qm_npq qm = None \<and> qm_norm_codes qm = []))"

text \<open>
  What \<^verbatim>\<open>quantize\<close> leaves as it was and what it leaves behind: the sizes, the flag
  and the lengths of the buffers stay, the main quantizer is there, and the norm quantizer
  is there under the flag and untouched without it.
\<close>

definition quantized_from :: "'pq quant_matrix \<Rightarrow> 'pq quant_matrix \<Rightarrow> bool" where
  "quantized_from qm qm' =
     (qm_m qm' = qm_m qm \<and> qm_n qm' = qm_n qm \<and> qm_qnorm qm' = qm_qnorm qm \<and>
      qm_codesize qm' = qm_codesize qm \<and> length (qm_codes qm') = length (qm_codes qm) \<and>
      length (qm_norm_codes qm') = length (qm_norm_codes qm) \<and> qm_pq qm' \<noteq> None \<and>
      (if qm_qnorm qm then qm_npq qm' \<noteq> None
       else qm_npq qm' = qm_npq qm \<and> qm_norm_codes qm' = qm_norm_codes qm))"

text \<open>
  Modelled from the spec: \<^verbatim>\<open>ProductQuantizer::save\<close> and \<^verbatim>\<open>ProductQuantizer::load\<close> are
  not among the sources; the spec gives them as an opaque, self-contained binary
  serialization. \<open>pq_reloads env p p'\<close> says that loading, into a new quantizer, the
  bytes that \<open>p\<close> saves gives \<open>p'\<close> and consumes exactly these bytes, whatever follows
  them; \<open>pq_same env p p'\<close> says that \<open>p'\<close> has the centroids, the dot products and the
  accumulations of \<open>p\<close>.
\<close>

definition pq_reloads :: "'pq collaborators \<Rightarrow> 'pq \<Rightarrow> 'pq \<Rightarrow> bool" where
  "pq_reloads env p p' =
     (\<forall>rest. pq_load env (pq_default env) (good_stream (pq_save env p @ rest))
               = Inr (p', good_stream rest))"

definition pq_same :: "'pq collaborators \<Rightarrow> 'pq \<Rightarrow> 'pq \<Rightarrow> bool" where
  "pq_same env p p' =
     (pq_get_centroids env p' = pq_get_centroids env p \<and>
      pq_mulcode env p' = pq_mulcode env p \<and>
      pq_addcode env p' = pq_addcode env p)"

section \<open>A sample of the collaborators\<close>

text \<open>
  Modelled from the spec: the vector quantizer (\<^verbatim>\<open>ProductQuantizer\<close>) and the norm and
  division operations of the dense matrix are not among the sources. The theorems below
  hold for every implementation of them; this small instance of the contract that the
  spec gives is the one on which they are evaluated at concrete inputs. A \<open>grid_pq\<close>
  cuts a vector of \<open>gq_dim\<close> coordinates into sub-vectors of \<open>gq_dsub\<close> coordinates (the
  last one shorter when the size does not divide the dimension); its codebook, the same
  for every slot, is the grid in which the code \<open>c\<close> stands for the sub-vector whose
  coordinates are all \<open>c\<close>, so that training has nothing to learn and the code of a
  sub-vector is the grid point nearest to it. Its serialized form is the two bytes of
  its dimension and of its sub-vector size.
\<close>

record grid_pq =
  gq_dim :: nat
  gq_dsub :: nat

definition gq_nsubq :: "grid_pq \<Rightarrow> nat" where
  "gq_nsubq p = (gq_dim p + gq_dsub p - 1) div gq_dsub p"

definition gq_new :: "int \<Rightarrow> int \<Rightarrow> grid_pq" where
  "gq_new dims dsub = \<lparr>gq_dim = nat dims, gq_dsub = nat dsub\<rparr>"

definition gq_train :: "grid_pq \<Rightarrow> int \<Rightarrow> real list \<Rightarrow> error + grid_pq" where
  "gq_train p n x =
     (if n \<le> 0 then Inl (InvalidArgument ''no training vectors'') else Inr p)"

definition gq_nearest :: "real list \<Rightarrow> u8" where
  "gq_nearest v = word_of_int (max 0 (min 255 (round (sum_list v / real (length v)))))"

definition gq_compute_codes :: "grid_pq \<Rightarrow> real list \<Rightarrow> int \<Rightarrow> u8 list" where
  "gq_compute_codes p x n =
     concat (map (\<lambda>t. map (\<lambda>s.
         gq_nearest (take (min (gq_dsub p) (gq_dim p - s * gq_dsub p))
                          (drop (t * gq_dim p + s * gq_dsub p) x)))
       [0..<gq_nsubq p]) [0..<nat n])"

definition gq_get_centroids :: "grid_pq \<Rightarrow> int \<Rightarrow> u8 \<Rightarrow> real list" where
  "gq_get_centroids p s c = replicate (gq_dsub p) (real (unat c))"

text \<open>The row \<open>t\<close> that the codes stand for; a code outside the buffer counts as 0.\<close>

definition gq_row :: "grid_pq \<Rightarrow> u8 list \<Rightarrow> int \<Rightarrow> real list" where
  "gq_row p codes t =
     take (gq_dim p) (concat (map (\<lambda>s.
         gq_get_centroids p (int s)
           (if gq_nsubq p * nat t + s < length codes
            then codes ! (gq_nsubq p * nat t + s) else 0))
       [0..<gq_nsubq p]))"

definition gq_mulcode :: "grid_pq \<Rightarrow> real list \<Rightarrow> u8 list \<Rightarrow> int \<Rightarrow> real \<Rightarrow> real" where
  "gq_mulcode p x codes t alpha =
     sum_list (map2 (\<lambda>xi ri. xi * ri) x (gq_row p codes t)) * alpha"

definition gq_addcode :: "grid_pq \<Rightarrow> real list \<Rightarrow> u8 list \<Rightarrow> int \<Rightarrow> real \<Rightarrow> real list" where
  "gq_addcode p x codes t alpha =
     map2 (\<lambda>xi ri. xi + alpha * ri) x (gq_row p codes t)
     @ drop (length (gq_row p codes t)) x"

definition gq_save :: "grid_pq \<Rightarrow> u8 list" where
  "gq_save p = [of_nat (gq_dim p), of_nat (gq_dsub p)]"

definition gq_load :: "grid_pq \<Rightarrow> istream \<Rightarrow> error + (grid_pq \<times> istream)" where
  "gq_load p s =
     (let (bs, s') = stream_read s (gq_save p)
      in case bs of
           [a, b] \<Rightarrow> Inr (\<lparr>gq_dim = unat a, gq_dsub = unat b\<rparr>, s')
         | _ \<Rightarrow> Inr (p, s'))"

text \<open>
  Modelled from the spec: the Euclidean norm of each row, stored into the vector of
  norms, and the division of each row by its entry of that vector; the rows are the
  consecutive blocks of \<^verbatim>\<open>size(1)\<close> reals of the data.
\<close>

definition dm_row :: "DenseMatrix \<Rightarrow> nat \<Rightarrow> real list" where
  "dm_row mat i =
     take (nat (sint (dm_size1 mat))) (drop (i * nat (sint (dm_size1 mat))) (dm_data mat))"

definition sample_l2NormRow :: "DenseMatrix \<Rightarrow> real list \<Rightarrow> real list" where
  "sample_l2NormRow mat norms =
     map (\<lambda>i. sqrt (sum_list (map (\<lambda>x. x * x) (dm_row mat i))))
       [0..<min (nat (sint (dm_size0 mat))) (length norms)]
     @ drop (nat (sint (dm_size0 mat))) norms"

definition sample_divideRow :: "DenseMatrix \<Rightarrow> real list \<Rightarrow> DenseMatrix" where
  "sample_divideRow mat norms =
     mat\<lparr>dm_data :=
       concat (map (\<lambda>i. map (\<lambda>x. if i < length norms then x / (norms ! i) else x)
                            (dm_row mat i))
               [0..<nat (sint (dm_size0 mat))])\<rparr>"

definition sample_env :: "grid_pq collaborators" where
  "sample_env =
     \<lparr>l2NormRow = sample_l2NormRow, divideRow = sample_divideRow,
      pq_new = gq_new, pq_default = gq_new 0 0, pq_train = gq_train,
      pq_compute_codes = gq_compute_codes, pq_get_centroids = gq_get_centroids,
      pq_mulcode = gq_mulcode, pq_addcode = gq_addcode,
      pq_save = gq_save, pq_load = gq_load\<rparr>"

text \<open>
  The concrete inputs: a matrix of two rows \<open>(3, 4, 0, 0)\<close> and \<open>(0, 0, 6, 8)\<close>, of norms
  5 and 10; the quantizers of its rows, with sub-vectors of size 2, and of its norms; the
  instance as the constructor hands it to \<^verbatim>\<open>quantize\<close> under the flag; the instances that
  construction gives without and with norm quantization; and the instance that is loaded
  from a stream whose header gives 2 rows, 4 columns and 3 codes.
\<close>

definition mat_2x4 :: DenseMatrix where
  "mat_2x4 = \<lparr>dm_size0 = 2, dm_size1 = 4, dm_data = [3, 4, 0, 0, 0, 0, 6, 8]\<rparr>"

definition gq_main :: grid_pq where
  "gq_main = \<lparr>gq_dim = 4, gq_dsub = 2\<rparr>"

definition gq_norm :: grid_pq where
  "gq_norm = \<lparr>gq_dim = 1, gq_dsub = 1\<rparr>"

definition qm_blank :: "grid_pq quant_matrix" where
  "qm_blank =
     \<lparr>qm_m = 2, qm_n = 4, qm_pq = Some gq_main, qm_npq = Some gq_norm,
      qm_codes = [0, 0, 0, 0], qm_norm_codes = [0, 0], qm_qnorm = True, qm_codesize = 4\<rparr>"

definition qm_plain :: "grid_pq quant_matrix" where
  "qm_plain =
     \<lparr>qm_m = 2, qm_n = 4, qm_pq = Some gq_main, qm_npq = None,
      qm_codes = [4, 0, 0, 7], qm_norm_codes = [], qm_qnorm = False, qm_codesize = 4\<rparr>"

definition qm_normed :: "grid_pq quant_matrix" where
  "qm_normed =
     \<lparr>qm_m = 2, qm_n = 4, qm_pq = Some gq_main, qm_npq = Some gq_norm,
      qm_codes = [1, 0, 0, 1], qm_norm_codes = [5, 10], qm_qnorm = True, qm_codesize = 4\<rparr>"

definition qm_short :: "grid_pq quant_matrix" where
  "qm_short =
     \<lparr>qm_m = 2, qm_n = 4, qm_pq = Some gq_main, qm_npq = None,
      qm_codes = [4, 0, 0], qm_norm_codes = [], qm_qnorm = False, qm_codesize = 3\<rparr>"

section \<open>Results, buffers and bytes\<close>

lemma bind_result_Inr: "bind_result r f = Inr y \<longleftrightarrow> (\<exists>x. r = Inr x \<and> f x = Inr y)"
  by (cases r) auto

lemma write_at_Inr: "write_at buf new = Inr b \<Longrightarrow> length b = length buf"
  by (auto simp add: write_at_def split: if_splits)

lemma vector_resize_Nil_Inr:
  "vector_resize [] n z = Inr xs \<Longrightarrow> xs = replicate (nat (sint n)) z \<and> 0 \<le> sint n"
  by (auto simp add: vector_resize_def split: if_splits)

lemma vector_resize_Nil_length:
  "vector_resize [] n z = Inr xs \<Longrightarrow> int (length xs) = sint n"
  by (auto simp add: vector_resize_def split: if_splits)

lemma read_bytes_all: "int (length buf) = sint n \<Longrightarrow> read_bytes buf n = Inr buf"
  by (simp add: read_bytes_def)

lemma vector_resize_Nil_fits:
  "int (length (bs :: 'a list)) = sint n \<Longrightarrow>
     vector_resize [] n (z :: 'a) = Inr (replicate (length bs) z)"
  by (auto simp add: vector_resize_def)

lemma stream_read_length: "stream_read s old = (bs, s') \<Longrightarrow> length bs = length old"
  by (auto simp add: stream_read_def split: if_splits)

lemma stream_read_good:
  "length old = length bs \<Longrightarrow> stream_read (good_stream (bs @ rest)) old = (bs, good_stream rest)"
  by (simp add: stream_read_def good_stream_def)

lemma length_le_bytes: "length (le_bytes k w) = k"
  by (induction k arbitrary: w) simp_all

lemma dec64_le_bytes: "dec64 (le_bytes k w) = take_bit (8 * k) w"
proof (induction k arbitrary: w)
  case 0
  show ?case by simp
next
  case (Suc k)
  show ?case
    by (simp add: Suc) (rule bit_word_eqI, auto simp add: bit_simps)
qed

lemma length_enc64: "length (enc64 w) = 8"
  by (simp add: enc64_def length_le_bytes del: le_bytes.simps)

lemma dec64_enc64: "dec64 (enc64 w) = w"
  by (simp add: enc64_def dec64_le_bytes take_bit_word_eq_self del: le_bytes.simps)

lemma length_enc_bool: "length (enc_bool b) = 1"
  by (simp add: enc_bool_def)

lemma dec_bool_enc_bool: "dec_bool (enc_bool b) = b"
  by (simp add: enc_bool_def dec_bool_def)

section \<open>The arithmetic of the code buffer size\<close>

lemma ceiling_div_pos:
  assumes "0 \<le> (n :: int)" "0 < d"
  shows "(n + d - 1) div d = \<lceil>real_of_int n / real_of_int d\<rceil>"
proof -
  define q where "q = (n + d - 1) div d"
  define r where "r = (n + d - 1) mod d"
  have eq: "n + d - 1 = q * d + r" by (simp add: q_def r_def)
  have r: "0 \<le> r" "r < d" using assms by (simp_all add: r_def)
  have up: "n \<le> q * d" using eq r by linarith
  have "(q - 1) * d = q * d - d" by (simp add: algebra_simps)
  with eq r have lo: "(q - 1) * d < n" by linarith
  have "\<lceil>real_of_int n / real_of_int d\<rceil> = q"
  proof (rule ceiling_unique)
    have "real_of_int ((q - 1) * d) < real_of_int n" using lo by (simp only: of_int_less_iff)
    then show "of_int q - 1 < real_of_int n / real_of_int d"
      using assms(2) by (simp add: pos_less_divide_eq)
    have "real_of_int n \<le> real_of_int (q * d)" using up by (simp only: of_int_le_iff)
    then show "real_of_int n / real_of_int d \<le> of_int q"
      using assms(2) by (simp add: pos_divide_le_eq)
  qed
  then show ?thesis by (simp add: q_def)
qed

lemma sdiv_nonneg_pos: "0 \<le> (a :: int) \<Longrightarrow> 0 < b \<Longrightarrow> a sdiv b = a div b"
  by (simp add: signed_divide_int_def sgn_if)

lemma sint_scast_32_64: "sint (scast (d :: int32) :: int64) = sint d"
  by (simp add: sint_up_scast is_up)

lemma sint_int64_eq:
  assumes "- (2 ^ 63) \<le> k" "k < 2 ^ 63"
  shows "sint (word_of_int k :: int64) = k"
  using assms by (simp add: sint_sbintrunc' signed_take_bit_int_eq_self)

lemma codesize_value:
  fixes m n :: int64 and d :: int32
  assumes m: "0 \<le> sint m" and n: "0 \<le> sint n" and d: "0 < sint d"
    and nd: "sint n + sint d \<le> 2 ^ 63"
    and fit: "sint m * \<lceil>real_of_int (sint n) / real_of_int (sint d)\<rceil> < 2 ^ 63"
  shows "sint (m * int64_div (n + scast d - 1) (scast d)) =
           sint m * \<lceil>real_of_int (sint n) / real_of_int (sint d)\<rceil>"
proof -
  let ?q = "\<lceil>real_of_int (sint n) / real_of_int (sint d)\<rceil>"
  have num: "sint (n + scast d - 1) = sint n + sint d - 1"
  proof -
    have "n + scast d - 1 = (word_of_int (sint n + sint d - 1) :: int64)"
      by (simp add: sint_scast_32_64 [symmetric])
    moreover have "sint (word_of_int (sint n + sint d - 1) :: int64) = sint n + sint d - 1"
      using n d nd by (intro sint_int64_eq) linarith+
    ultimately show ?thesis by simp
  qed
  have c: "(sint n + sint d - 1) div sint d = ?q"
    using n d by (rule ceiling_div_pos)
  have q: "(sint n + sint d - 1) sdiv sint d = ?q"
    using n d c by (simp only: sdiv_nonneg_pos)
  have "0 \<le> (sint n + sint d - 1) div sint d"
    using n d by (simp add: pos_imp_zdiv_nonneg_iff)
  then have q0: "0 \<le> ?q" by (simp only: c)
  have "(sint n + sint d - 1) div sint d \<le> sint n + sint d - 1"
    using n d zdiv_mono2 [of "sint n + sint d - 1" 1 "sint d"] by simp
  then have qn: "?q \<le> sint n + sint d - 1" by (simp only: c)
  have sq: "sint (int64_div (n + scast d - 1) (scast d)) = ?q"
    unfolding int64_div_def num sint_scast_32_64 q
    using q0 qn nd by (intro sint_int64_eq) linarith+
  have "m * int64_div (n + scast d - 1) (scast d)
          = word_of_int (sint m * sint (int64_div (n + scast d - 1) (scast d)))"
    by simp
  also have "sint \<dots> = sint m * ?q"
    unfolding sq using m q0 fit by (intro sint_int64_eq) (auto intro: order_trans [of _ 0])
  finally show ?thesis .
qed

section \<open>The norm of a row\<close>

lemma row_norm_plain: "\<not> qm_qnorm qm \<Longrightarrow> row_norm env qm i = Inr 1"
  by (simp add: row_norm_def)

lemma row_norm_normed:
  assumes "qm_qnorm qm" "qm_npq qm = Some npq" "0 \<le> i" "i < int (length (qm_norm_codes qm))"
    and "pq_get_centroids env npq 0 (qm_norm_codes qm ! nat i) = c # cs"
  shows "row_norm env qm i = Inr c"
  using assms by (simp add: row_norm_def)

lemma row_norm_inv:
  assumes "qm_inv qm" "0 \<le> i" "i < sint (qm_m qm)"
    and "qm_qnorm qm \<Longrightarrow>
           qm_npq qm = Some npq \<and>
           pq_get_centroids env npq 0 (qm_norm_codes qm ! nat i) = c # cs"
  shows "row_norm env qm i = Inr (if qm_qnorm qm then c else 1)"
proof (cases "qm_qnorm qm")
  case True
  with assms(1) have "int (length (qm_norm_codes qm)) = sint (qm_m qm)"
    by (simp add: qm_inv_def)
  with True assms show ?thesis by (simp add: row_norm_normed)
next
  case False
  then show ?thesis by (simp add: row_norm_plain)
qed

section \<open>Quantizing\<close>

lemma quantize_main_Inr:
  assumes "quantize_main env qm mat = Inr qm'"
  shows "\<exists>pq pq' cs. qm_pq qm = Some pq \<and>
           pq_train env pq (sint (qm_m qm)) (dm_data mat) = Inr pq' \<and>
           write_at (qm_codes qm) (pq_compute_codes env pq' (dm_data mat) (sint (qm_m qm)))
             = Inr cs \<and>
           qm' = qm\<lparr>qm_pq := Some pq', qm_codes := cs\<rparr>"
  using assms
  by (auto simp add: quantize_main_def bind_result_Inr split: option.splits)

lemma quantizeNorm_Inr:
  assumes "quantizeNorm env qm norms = Inr qm'"
  shows "qm_qnorm qm \<and> int (length norms) = sint (qm_m qm) \<and>
         (\<exists>npq npq' nc. qm_npq qm = Some npq \<and>
           pq_train env npq (sint (qm_m qm)) norms = Inr npq' \<and>
           write_at (qm_norm_codes qm) (pq_compute_codes env npq' norms (sint (qm_m qm)))
             = Inr nc \<and>
           qm' = qm\<lparr>qm_npq := Some npq', qm_norm_codes := nc\<rparr>)"
  using assms
  by (auto simp add: quantizeNorm_def bind_result_Inr split: option.splits if_splits)

lemma quantize_main_iff:
  "quantize_main env qm mat = Inr qm' \<longleftrightarrow>
     (\<exists>pq pq' cs. qm_pq qm = Some pq \<and>
        pq_train env pq (sint (qm_m qm)) (dm_data mat) = Inr pq' \<and>
        write_at (qm_codes qm) (pq_compute_codes env pq' (dm_data mat) (sint (qm_m qm)))
          = Inr cs \<and>
        qm' = qm\<lparr>qm_pq := Some pq', qm_codes := cs\<rparr>)"
  by (auto simp add: quantize_main_def bind_result_Inr split: option.splits)

lemma quantizeNorm_iff:
  "quantizeNorm env qm norms = Inr qm' \<longleftrightarrow>
     (qm_qnorm qm \<and> int (length norms) = sint (qm_m qm) \<and>
      (\<exists>npq npq' nc. qm_npq qm = Some npq \<and>
         pq_train env npq (sint (qm_m qm)) norms = Inr npq' \<and>
         write_at (qm_norm_codes qm) (pq_compute_codes env npq' norms (sint (qm_m qm)))
           = Inr nc \<and>
         qm' = qm\<lparr>qm_npq := Some npq', qm_norm_codes := nc\<rparr>))"
  by (auto simp add: quantizeNorm_def bind_result_Inr split: option.splits if_splits)

lemma quantize_plain:
  "\<not> qm_qnorm qm \<Longrightarrow> quantize env qm mat = quantize_main env qm mat"
  by (simp add: quantize_def)

lemma quantize_normed_Inr:
  assumes "quantize env qm mat = Inr qm'" and "qm_qnorm qm"
  shows "\<exists>norms qm1. 0 \<le> sint (dm_size0 mat) \<and>
           norms = l2NormRow env mat (replicate (nat (sint (dm_size0 mat))) 0) \<and>
           quantizeNorm env qm norms = Inr qm1 \<and>
           quantize_main env qm1 (divideRow env mat norms) = Inr qm'"
  using assms
  by (auto simp add: quantize_def bind_result_Inr Let_def dest!: vector_resize_Nil_Inr)

lemma quantize_keeps:
  assumes "quantize env qm mat = Inr qm'"
  shows "quantized_from qm qm'"
proof (cases "qm_qnorm qm")
  case False
  with assms have "quantize_main env qm mat = Inr qm'" by (simp add: quantize_plain)
  from quantize_main_Inr [OF this] obtain pq' cs where
    w: "write_at (qm_codes qm) (pq_compute_codes env pq' (dm_data mat) (sint (qm_m qm)))
          = Inr cs"
    and e: "qm' = qm\<lparr>qm_pq := Some pq', qm_codes := cs\<rparr>" by blast
  from False e write_at_Inr [OF w] show ?thesis by (simp add: quantized_from_def)
next
  case True
  from quantize_normed_Inr [OF assms True] obtain norms qm1 where
    a: "quantizeNorm env qm norms = Inr qm1"
    and b: "quantize_main env qm1 (divideRow env mat norms) = Inr qm'" by blast
  from quantizeNorm_Inr [OF a] obtain npq' nc where
    w1: "write_at (qm_norm_codes qm) (pq_compute_codes env npq' norms (sint (qm_m qm)))
          = Inr nc"
    and e1: "qm1 = qm\<lparr>qm_npq := Some npq', qm_norm_codes := nc\<rparr>" by blast
  from quantize_main_Inr [OF b] obtain pq' cs where
    w2: "write_at (qm_codes qm1)
           (pq_compute_codes env pq' (dm_data (divideRow env mat norms)) (sint (qm_m qm1)))
          = Inr cs"
    and e2: "qm' = qm1\<lparr>qm_pq := Some pq', qm_codes := cs\<rparr>" by blast
  from w2 e1 have w2': "length cs = length (qm_codes qm)"
    by (auto dest: write_at_Inr)
  from True e1 e2 write_at_Inr [OF w1] w2' show ?thesis by (simp add: quantized_from_def)
qed

lemma QuantMatrix_Inr:
  assumes "QuantMatrix env mat dsub qnorm = Inr qm"
  shows "qm_inv qm \<and> qm_m qm = dm_size0 mat \<and> qm_n qm = dm_size1 mat \<and>
         qm_qnorm qm = qnorm \<and> dsub \<noteq> 0 \<and>
         qm_codesize qm
           = dm_size0 mat * int64_div (dm_size1 mat + scast dsub - 1) (scast dsub)"
proof -
  let ?c = "dm_size0 mat * int64_div (dm_size1 mat + scast dsub - 1) (scast dsub)"
  from assms have d: "dsub \<noteq> 0" by (auto simp add: QuantMatrix_def split: if_splits)
  with assms obtain codes norm_codes where
    c: "vector_resize [] ?c 0 = Inr codes"
    and n: "(if qnorm then vector_resize [] (dm_size0 mat) 0 else Inr []) = Inr norm_codes"
    and q: "quantize env
             \<lparr>qm_m = dm_size0 mat, qm_n = dm_size1 mat,
              qm_pq = Some (pq_new env (sint (dm_size1 mat)) (sint dsub)),
              qm_npq = (if qnorm then Some (pq_new env 1 1) else None),
              qm_codes = codes, qm_norm_codes = norm_codes,
              qm_qnorm = qnorm, qm_codesize = ?c\<rparr> mat = Inr qm"
    by (auto simp add: QuantMatrix_def Let_def bind_result_Inr)
  from n have nl: "if qnorm then int (length norm_codes) = sint (dm_size0 mat)
                   else norm_codes = []"
    by (auto dest: vector_resize_Nil_length split: if_splits)
  from quantize_keeps [OF q] vector_resize_Nil_length [OF c] nl d show ?thesis
    by (auto simp add: quantized_from_def qm_inv_def split: if_splits)
qed

section \<open>Saving and loading\<close>

lemma save_Inr:
  assumes "qm_inv qm" and "qm_pq qm = Some pq"
    and "qm_qnorm qm \<Longrightarrow> qm_npq qm = Some npq"
  shows "save env qm out =
           Inr (out @ enc_bool (qm_qnorm qm) @ enc64 (qm_m qm) @ enc64 (qm_n qm)
                @ enc64 (qm_codesize qm) @ qm_codes qm @ pq_save env pq
                @ (if qm_qnorm qm then qm_norm_codes qm @ pq_save env npq else []))"
proof -
  have c: "read_bytes (qm_codes qm) (qm_codesize qm) = Inr (qm_codes qm)"
    using assms(1) by (simp add: qm_inv_def read_bytes_all)
  show ?thesis
  proof (cases "qm_qnorm qm")
    case True
    with assms(1) have "read_bytes (qm_norm_codes qm) (qm_m qm) = Inr (qm_norm_codes qm)"
      by (simp add: qm_inv_def read_bytes_all)
    with True c assms(2,3) show ?thesis by (simp add: save_def)
  next
    case False
    with c assms(2) show ?thesis by (simp add: save_def)
  qed
qed

lemma load_saved_plain:
  assumes inv: "qm_inv x" and plain: "\<not> qm_qnorm x"
    and rp: "pq_load env (pq_default env) (good_stream (blob @ rest)) = Inr (p', good_stream rest)"
  shows "load env QuantMatrix_default
           (good_stream (enc_bool (qm_qnorm x) @ enc64 (qm_m x) @ enc64 (qm_n x)
              @ enc64 (qm_codesize x) @ qm_codes x @ blob @ rest))
         = Inr (x\<lparr>qm_pq := Some p'\<rparr>, good_stream rest)"
proof -
  have lc: "int (length (qm_codes x)) = sint (qm_codesize x)"
    and np: "qm_npq x = None" and nc: "qm_norm_codes x = []"
    using inv plain by (simp_all add: qm_inv_def)
  have eq: "x\<lparr>qm_pq := Some p'\<rparr> =
      \<lparr>qm_m = qm_m x, qm_n = qm_n x, qm_pq = Some p', qm_npq = None, qm_codes = qm_codes x,
       qm_norm_codes = [], qm_qnorm = False, qm_codesize = qm_codesize x\<rparr>"
    using plain np nc by (cases x) simp
  show ?thesis
    unfolding eq using plain rp
    by (simp add: load_def QuantMatrix_default_def stream_read_good length_enc64
        length_enc_bool dec64_enc64 dec_bool_enc_bool vector_resize_Nil_fits [OF lc])
qed

lemma load_saved_normed:
  assumes inv: "qm_inv x" and normed: "qm_qnorm x"
    and rp: "pq_load env (pq_default env)
               (good_stream (blob @ qm_norm_codes x @ nblob @ rest))
             = Inr (p', good_stream (qm_norm_codes x @ nblob @ rest))"
    and rn: "pq_load env (pq_default env) (good_stream (nblob @ rest))
             = Inr (np', good_stream rest)"
  shows "load env QuantMatrix_default
           (good_stream (enc_bool (qm_qnorm x) @ enc64 (qm_m x) @ enc64 (qm_n x)
              @ enc64 (qm_codesize x) @ qm_codes x @ blob @ qm_norm_codes x @ nblob @ rest))
         = Inr (x\<lparr>qm_pq := Some p', qm_npq := Some np'\<rparr>, good_stream rest)"
proof -
  have lc: "int (length (qm_codes x)) = sint (qm_codesize x)"
    and ln: "int (length (qm_norm_codes x)) = sint (qm_m x)"
    using inv normed by (simp_all add: qm_inv_def)
  have eq: "x\<lparr>qm_pq := Some p', qm_npq := Some np'\<rparr> =
      \<lparr>qm_m = qm_m x, qm_n = qm_n x, qm_pq = Some p', qm_npq = Some np',
       qm_codes = qm_codes x, qm_norm_codes = qm_norm_codes x, qm_qnorm = True,
       qm_codesize = qm_codesize x\<rparr>"
    using normed by (cases x) simp
  show ?thesis
    unfolding eq using normed rp rn
    by (simp add: load_def QuantMatrix_default_def stream_read_good length_enc64
        length_enc_bool dec64_enc64 dec_bool_enc_bool vector_resize_Nil_fits [OF lc]
        vector_resize_Nil_fits [OF ln])
qed

text \<open>The steps of a load that returns.\<close>

lemma load_Inr:
  assumes "load env qm s0 = Inr (qm', s')"
  obtains b s1 bm s2 bn s3 bc s4 codes0 cs s5 pq s6 where
    "stream_read s0 (enc_bool (qm_qnorm qm)) = (b, s1)"
    "stream_read s1 (enc64 (qm_m qm)) = (bm, s2)"
    "stream_read s2 (enc64 (qm_n qm)) = (bn, s3)"
    "stream_read s3 (enc64 (qm_codesize qm)) = (bc, s4)"
    "vector_resize [] (dec64 bc) 0 = Inr codes0"
    "stream_read s4 codes0 = (cs, s5)"
    "pq_load env (pq_default env) s5 = Inr (pq, s6)"
    "if dec_bool b
     then \<exists>nc0 ns s7 npq.
            vector_resize [] (dec64 bm) 0 = Inr nc0 \<and> stream_read s6 nc0 = (ns, s7) \<and>
            pq_load env (pq_default env) s7 = Inr (npq, s') \<and>
            qm' = qm\<lparr>qm_m := dec64 bm, qm_n := dec64 bn, qm_pq := Some pq,
                      qm_npq := Some npq, qm_codes := cs, qm_norm_codes := ns,
                      qm_qnorm := True, qm_codesize := dec64 bc\<rparr>
     else s' = s6 \<and>
          qm' = qm\<lparr>qm_m := dec64 bm, qm_n := dec64 bn, qm_pq := Some pq, qm_codes := cs,
                    qm_qnorm := False, qm_codesize := dec64 bc\<rparr>"
proof -
  obtain b s1 where r1: "stream_read s0 (enc_bool (qm_qnorm qm)) = (b, s1)"
    by (cases "stream_read s0 (enc_bool (qm_qnorm qm))")
  obtain bm s2 where r2: "stream_read s1 (enc64 (qm_m qm)) = (bm, s2)"
    by (cases "stream_read s1 (enc64 (qm_m qm))")
  obtain bn s3 where r3: "stream_read s2 (enc64 (qm_n qm)) = (bn, s3)"
    by (cases "stream_read s2 (enc64 (qm_n qm))")
  obtain bc s4 where r4: "stream_read s3 (enc64 (qm_codesize qm)) = (bc, s4)"
    by (cases "stream_read s3 (enc64 (qm_codesize qm))")
  from assms r1 r2 r3 r4 have "\<exists>codes0 :: u8 list. vector_resize [] (dec64 bc) 0 = Inr codes0"
    by (auto simp add: load_def bind_result_Inr)
  then obtain codes0 :: "u8 list" where c0: "vector_resize [] (dec64 bc) 0 = Inr codes0" ..
  obtain cs s5 where r5: "stream_read s4 codes0 = (cs, s5)"
    by (cases "stream_read s4 codes0")
  from assms r1 r2 r3 r4 c0 r5 have "\<exists>pq s6. pq_load env (pq_default env) s5 = Inr (pq, s6)"
    by (auto simp add: load_def bind_result_Inr)
  then obtain pq s6 where p: "pq_load env (pq_default env) s5 = Inr (pq, s6)" by blast
  show thesis
  proof (cases "dec_bool b")
    case False
    with assms r1 r2 r3 r4 c0 r5 p have e:
      "s' = s6 \<and>
       qm' = qm\<lparr>qm_m := dec64 bm, qm_n := dec64 bn, qm_pq := Some pq, qm_codes := cs,
                 qm_qnorm := False, qm_codesize := dec64 bc\<rparr>"
      by (auto simp add: load_def)
    show thesis
      by (rule that [OF r1 r2 r3 r4 c0 r5 p]) (use False e in simp)
  next
    case True
    with assms r1 r2 r3 r4 c0 r5 p have "\<exists>nc0 :: u8 list. vector_resize [] (dec64 bm) 0 = Inr nc0"
      by (auto simp add: load_def bind_result_Inr)
    then obtain nc0 :: "u8 list" where n0: "vector_resize [] (dec64 bm) 0 = Inr nc0" ..
    obtain ns s7 where r7: "stream_read s6 nc0 = (ns, s7)"
      by (cases "stream_read s6 nc0")
    from True assms r1 r2 r3 r4 c0 r5 p n0 r7 have e:
      "\<exists>npq. pq_load env (pq_default env) s7 = Inr (npq, s') \<and>
         qm' = qm\<lparr>qm_m := dec64 bm, qm_n := dec64 bn, qm_pq := Some pq,
                   qm_npq := Some npq, qm_codes := cs, qm_norm_codes := ns,
                   qm_qnorm := True, qm_codesize := dec64 bc\<rparr>"
      by (auto simp add: load_def bind_result_Inr)
    show thesis
      by (rule that [OF r1 r2 r3 r4 c0 r5 p]) (use True n0 r7 e in auto)
  qed
qed

lemma load_inv:
  assumes "load env qm s0 = Inr (qm', s')"
  shows "int (length (qm_codes qm')) = sint (qm_codesize qm') \<and> qm_pq qm' \<noteq> None \<and>
         (if qm_qnorm qm'
          then qm_npq qm' \<noteq> None \<and> int (length (qm_norm_codes qm')) = sint (qm_m qm')
          else qm_npq qm' = qm_npq qm \<and> qm_norm_codes qm' = qm_norm_codes qm)"
proof -
  from assms obtain b bm bn bc s4 codes0 cs s5 pq s6 where
    c0: "vector_resize [] (dec64 bc) 0 = Inr codes0"
    and r5: "stream_read s4 codes0 = (cs, s5)"
    and rest: "if dec_bool b
     then \<exists>nc0 ns s7 npq.
            vector_resize [] (dec64 bm) 0 = Inr nc0 \<and> stream_read s6 nc0 = (ns, s7) \<and>
            pq_load env (pq_default env) s7 = Inr (npq, s') \<and>
            qm' = qm\<lparr>qm_m := dec64 bm, qm_n := dec64 bn, qm_pq := Some pq,
                      qm_npq := Some npq, qm_codes := cs, qm_norm_codes := ns,
                      qm_qnorm := True, qm_codesize := dec64 bc\<rparr>
     else s' = s6 \<and>
          qm' = qm\<lparr>qm_m := dec64 bm, qm_n := dec64 bn, qm_pq := Some pq, qm_codes := cs,
                    qm_qnorm := False, qm_codesize := dec64 bc\<rparr>"
    by (rule load_Inr)
  have lc: "int (length cs) = sint (dec64 bc)"
    using vector_resize_Nil_length [OF c0] stream_read_length [OF r5] by simp
  show ?thesis
  proof (cases "dec_bool b")
    case False
    with rest lc show ?thesis by simp
  next
    case True
    with rest obtain nc0 ns s7 npq where
      n0: "vector_resize [] (dec64 bm) 0 = Inr nc0" and r7: "stream_read s6 nc0 = (ns, s7)"
      and e: "qm' = qm\<lparr>qm_m := dec64 bm, qm_n := dec64 bn, qm_pq := Some pq,
                      qm_npq := Some npq, qm_codes := cs, qm_norm_codes := ns,
                      qm_qnorm := True, qm_codesize := dec64 bc\<rparr>"
      by auto
    have "int (length ns) = sint (dec64 bm)"
      using vector_resize_Nil_length [OF n0] stream_read_length [OF r7] by simp
    with e lc show ?thesis by simp
  qed
qed

lemma load_default_inv:
  assumes "load env QuantMatrix_default s0 = Inr (qm', s')"
  shows "qm_inv qm'"
  using load_inv [OF assms] by (auto simp add: qm_inv_def QuantMatrix_default_def split: if_splits)

text \<open>The sizes and the flag of a loaded instance are those of the header.\<close>

lemma load_header:
  assumes "load env qm0 (good_stream (enc_bool q @ enc64 m @ enc64 n @ enc64 c @ rest))
             = Inr (qm', s')"
  shows "qm_qnorm qm' = q \<and> qm_m qm' = m \<and> qm_n qm' = n \<and> qm_codesize qm' = c"
proof -
  let ?s0 = "good_stream (enc_bool q @ enc64 m @ enc64 n @ enc64 c @ rest)"
  from assms obtain b s1 bm s2 bn s3 bc s4 cs pq s6 where
    r1: "stream_read ?s0 (enc_bool (qm_qnorm qm0)) = (b, s1)"
    and r2: "stream_read s1 (enc64 (qm_m qm0)) = (bm, s2)"
    and r3: "stream_read s2 (enc64 (qm_n qm0)) = (bn, s3)"
    and r4: "stream_read s3 (enc64 (qm_codesize qm0)) = (bc, s4)"
    and rest: "if dec_bool b
     then \<exists>nc0 ns s7 npq.
            vector_resize [] (dec64 bm) 0 = Inr nc0 \<and> stream_read s6 nc0 = (ns, s7) \<and>
            pq_load env (pq_default env) s7 = Inr (npq, s') \<and>
            qm' = qm0\<lparr>qm_m := dec64 bm, qm_n := dec64 bn, qm_pq := Some pq,
                       qm_npq := Some npq, qm_codes := cs, qm_norm_codes := ns,
                       qm_qnorm := True, qm_codesize := dec64 bc\<rparr>
     else s' = s6 \<and>
          qm' = qm0\<lparr>qm_m := dec64 bm, qm_n := dec64 bn, qm_pq := Some pq, qm_codes := cs,
                     qm_qnorm := False, qm_codesize := dec64 bc\<rparr>"
    by (rule load_Inr)
  from r1 have b: "b = enc_bool q" and s1: "s1 = good_stream (enc64 m @ enc64 n @ enc64 c @ rest)"
    by (simp_all add: stream_read_good length_enc_bool)
  from r2 have bm: "bm = enc64 m" and s2: "s2 = good_stream (enc64 n @ enc64 c @ rest)"
    unfolding s1 by (simp_all add: stream_read_good length_enc64)
  from r3 have bn: "bn = enc64 n" and s3: "s3 = good_stream (enc64 c @ rest)"
    unfolding s2 by (simp_all add: stream_read_good length_enc64)
  from r4 have bc: "bc = enc64 c"
    unfolding s3 by (simp_all add: stream_read_good length_enc64)
  from rest show ?thesis
    unfolding b bm bn bc by (auto simp add: dec64_enc64 dec_bool_enc_bool split: if_splits)
qed

text \<open>An instance whose quantizers are replaced by ones that behave the same.\<close>

lemma reloaded_row_norm:
  assumes "if qm_qnorm x
           then qm_npq x = Some np \<and> pq_same env np np' \<and>
                x' = x\<lparr>qm_pq := Some p', qm_npq := Some np'\<rparr>
           else x' = x\<lparr>qm_pq := Some p'\<rparr>"
  shows "row_norm env x' i = row_norm env x i"
  using assms by (auto simp add: row_norm_def pq_same_def split: if_splits)

lemma reloaded_behaviour:
  assumes "qm_pq x = Some p" and "pq_same env p p'"
    and "if qm_qnorm x
         then qm_npq x = Some np \<and> pq_same env np np' \<and>
              x' = x\<lparr>qm_pq := Some p', qm_npq := Some np'\<rparr>
         else x' = x\<lparr>qm_pq := Some p'\<rparr>"
  shows "dotRow env x' vec i = dotRow env x vec i"
    and "addRowToVector_scaled env x' acc j a = addRowToVector_scaled env x acc j a"
    and "addRowToVector env x' acc j = addRowToVector env x acc j"
proof -
  have n: "row_norm env x' k = row_norm env x k" for k
    using assms(3) by (rule reloaded_row_norm)
  have f: "qm_pq x' = Some p'" "qm_m x' = qm_m x" "qm_n x' = qm_n x" "qm_codes x' = qm_codes x"
    using assms(3) by (auto split: if_splits)
  from assms(2) have s: "pq_mulcode env p' = pq_mulcode env p" "pq_addcode env p' = pq_addcode env p"
    by (simp_all add: pq_same_def)
  show "dotRow env x' vec i = dotRow env x vec i"
    by (simp add: dotRow_def n f s assms(1))
  show "addRowToVector_scaled env x' acc j a = addRowToVector_scaled env x acc j a"
    by (simp add: addRowToVector_scaled_def n f s assms(1))
  show "addRowToVector env x' acc j = addRowToVector env x acc j"
    by (simp add: addRowToVector_def n f s assms(1))
qed

section \<open>Facts about the sample\<close>

lemma gq_new_main: "gq_new 4 2 = gq_main"
  by (simp add: gq_new_def gq_main_def)

lemma gq_new_norm: "gq_new 1 1 = gq_norm"
  by (simp add: gq_new_def gq_norm_def)

lemma gq_train_sample: "gq_train p 2 x = Inr p"
  by (simp add: gq_train_def)

lemma gq_norm_centroid: "gq_get_centroids gq_norm 0 c = [real (unat c)]"
  by (simp add: gq_get_centroids_def gq_norm_def)

lemma gq_row_normed_0: "gq_row gq_main [1, 0, 0, 1] 0 = [1, 1, 0, 0]"
  by (simp add: gq_row_def gq_nsubq_def gq_get_centroids_def gq_main_def upt_rec)
    (simp add: numeral_2_eq_2)

lemma gq_row_plain_0: "gq_row gq_main [4, 0, 0, 7] 0 = [4, 4, 0, 0]"
  by (simp add: gq_row_def gq_nsubq_def gq_get_centroids_def gq_main_def upt_rec)
    (simp add: numeral_2_eq_2)

lemma gq_save_main: "gq_save gq_main = [4, 2]"
  by (simp add: gq_save_def gq_main_def)

lemma gq_save_norm: "gq_save gq_norm = [1, 1]"
  by (simp add: gq_save_def gq_norm_def)

lemma gq_load_good:
  "gq_load p (good_stream (a # b # rest)) = Inr (\<lparr>gq_dim = unat a, gq_dsub = unat b\<rparr>, good_stream rest)"
  using stream_read_good [of "gq_save p" "[a, b]" rest]
  by (simp add: gq_load_def gq_save_def)

lemma gq_main_reloads: "pq_reloads sample_env gq_main gq_main"
  by (simp add: pq_reloads_def sample_env_def gq_save_main gq_load_good) (simp add: gq_main_def)

lemma gq_norm_reloads: "pq_reloads sample_env gq_norm gq_norm"
  by (simp add: pq_reloads_def sample_env_def gq_save_norm gq_load_good) (simp add: gq_norm_def)

lemma pq_same_refl: "pq_same env p p"
  by (simp add: pq_same_def)

lemma enc64_2: "enc64 2 = [2, 0, 0, 0, 0, 0, 0, 0]"
  by code_simp

lemma enc64_3: "enc64 3 = [3, 0, 0, 0, 0, 0, 0, 0]"
  by code_simp

lemma enc64_4: "enc64 4 = [4, 0, 0, 0, 0, 0, 0, 0]"
  by code_simp

lemma qm_normed_inv: "qm_inv qm_normed"
  by (simp add: qm_inv_def qm_normed_def)

lemma qm_plain_inv: "qm_inv qm_plain"
  by (simp add: qm_inv_def qm_plain_def)

lemma sqrt_25: "sqrt 25 = 5"
  by (rule real_sqrt_unique) simp_all

lemma sqrt_100: "sqrt 100 = 10"
  by (rule real_sqrt_unique) simp_all

lemma sample_norms: "sample_l2NormRow mat_2x4 [0, 0] = [5, 10]"
  by (simp add: sample_l2NormRow_def mat_2x4_def dm_row_def upt_rec sqrt_25 sqrt_100)

lemma sample_divided:
  "dm_data (sample_divideRow mat_2x4 [5, 10]) = [3 / 5, 4 / 5, 0, 0, 0, 0, 3 / 5, 4 / 5]"
  by (simp add: sample_divideRow_def mat_2x4_def dm_row_def upt_rec)

lemma sample_norm_codes: "gq_compute_codes gq_norm [5, 10] 2 = [5, 10]"
  by (simp add: gq_compute_codes_def gq_nsubq_def gq_nearest_def gq_norm_def upt_rec round_def)

lemma sample_codes_normed:
  "gq_compute_codes gq_main [3 / 5, 4 / 5, 0, 0, 0, 0, 3 / 5, 4 / 5] 2 = [1, 0, 0, 1]"
  by (simp add: gq_compute_codes_def gq_nsubq_def gq_nearest_def gq_main_def upt_rec round_def)

lemma sample_codes_plain:
  "gq_compute_codes gq_main [3, 4, 0, 0, 0, 0, 6, 8] 2 = [4, 0, 0, 7]"
  by (simp add: gq_compute_codes_def gq_nsubq_def gq_nearest_def gq_main_def upt_rec round_def)

lemma quantizeNorm_sample:
  "quantizeNorm sample_env qm_blank [5, 10]
     = Inr (qm_blank\<lparr>qm_npq := Some gq_norm, qm_norm_codes := [5, 10]\<rparr>)"
  by (simp add: quantizeNorm_def qm_blank_def sample_env_def gq_train_sample
      sample_norm_codes write_at_def)

lemma quantize_main_sample_normed:
  "dm_data mat' = [3 / 5, 4 / 5, 0, 0, 0, 0, 3 / 5, 4 / 5] \<Longrightarrow>
   quantize_main sample_env (qm_blank\<lparr>qm_npq := Some gq_norm, qm_norm_codes := [5, 10]\<rparr>) mat'
     = Inr qm_normed"
  by (simp add: quantize_main_def qm_blank_def qm_normed_def sample_env_def gq_train_sample
      sample_codes_normed write_at_def)

lemma quantize_sample_normed: "quantize sample_env qm_blank mat_2x4 = Inr qm_normed"
proof -
  have f: "qm_qnorm qm_blank" by (simp add: qm_blank_def)
  have v: "vector_resize [] (dm_size0 mat_2x4) (0 :: real) = Inr [0, 0]"
    by (simp add: vector_resize_def mat_2x4_def numeral_2_eq_2)
  have n: "l2NormRow sample_env mat_2x4 [0, 0] = [5, 10]"
    by (simp add: sample_env_def sample_norms)
  have d: "dm_data (divideRow sample_env mat_2x4 [5, 10])
             = [3 / 5, 4 / 5, 0, 0, 0, 0, 3 / 5, 4 / 5]"
    by (simp add: sample_env_def sample_divided)
  show ?thesis
    by (simp add: quantize_def f v n quantizeNorm_sample quantize_main_sample_normed [OF d])
qed

lemma quantize_sample_plain:
  "quantize sample_env
     \<lparr>qm_m = 2, qm_n = 4, qm_pq = Some gq_main, qm_npq = None, qm_codes = [0, 0, 0, 0],
      qm_norm_codes = [], qm_qnorm = False, qm_codesize = 4\<rparr> mat_2x4 = Inr qm_plain"
  by (simp add: quantize_def quantize_main_def qm_plain_def sample_env_def gq_train_sample
      write_at_def mat_2x4_def sample_codes_plain)

lemma QuantMatrix_sample_normed: "QuantMatrix sample_env mat_2x4 2 True = Inr qm_normed"
proof -
  have c: "vector_resize [] (4 :: int64) (0 :: u8) = Inr [0, 0, 0, 0]"
    by (simp add: vector_resize_def eval_nat_numeral)
  have m: "vector_resize [] (2 :: int64) (0 :: u8) = Inr [0, 0]"
    by (simp add: vector_resize_def eval_nat_numeral)
  have s: "dm_size0 mat_2x4 = 2" "dm_size1 mat_2x4 = 4" by (simp_all add: mat_2x4_def)
  have p: "pq_new sample_env 4 2 = gq_main" "pq_new sample_env 1 1 = gq_norm"
    by (simp_all add: sample_env_def gq_new_main gq_new_norm)
  show ?thesis
    using quantize_sample_normed
    by (simp add: QuantMatrix_def s Let_def int64_div_def c m p qm_blank_def)
qed

lemma QuantMatrix_sample_plain: "QuantMatrix sample_env mat_2x4 2 False = Inr qm_plain"
proof -
  have c: "vector_resize [] (4 :: int64) (0 :: u8) = Inr [0, 0, 0, 0]"
    by (simp add: vector_resize_def eval_nat_numeral)
  have s: "dm_size0 mat_2x4 = 2" "dm_size1 mat_2x4 = 4" by (simp_all add: mat_2x4_def)
  have p: "pq_new sample_env 4 2 = gq_main"
    by (simp add: sample_env_def gq_new_main)
  show ?thesis
    using quantize_sample_plain
    by (simp add: QuantMatrix_def s Let_def int64_div_def c p)
qed

lemma save_sample_plain:
  "save sample_env qm_plain [] =
     Inr [0, 2, 0, 0, 0, 0, 0, 0, 0, 4, 0, 0, 0, 0, 0, 0, 0, 4, 0, 0, 0, 0, 0, 0, 0,
          4, 0, 0, 7, 4, 2]"
  using save_Inr [of qm_plain gq_main gq_norm sample_env "[]"] qm_plain_inv
  by (simp add: qm_plain_def sample_env_def gq_save_main enc_bool_def enc64_2 enc64_4)

lemma save_sample_normed:
  "save sample_env qm_normed [] =
     Inr [1, 2, 0, 0, 0, 0, 0, 0, 0, 4, 0, 0, 0, 0, 0, 0, 0, 4, 0, 0, 0, 0, 0, 0, 0,
          1, 0, 0, 1, 4, 2, 5, 10, 1, 1]"
  using save_Inr [of qm_normed gq_main gq_norm sample_env "[]"] qm_normed_inv
  by (simp add: qm_normed_def sample_env_def gq_save_main gq_save_norm enc_bool_def
      enc64_2 enc64_4)

lemma load_sample_plain:
  "load sample_env QuantMatrix_default
     (good_stream [0, 2, 0, 0, 0, 0, 0, 0, 0, 4, 0, 0, 0, 0, 0, 0, 0, 4, 0, 0, 0, 0, 0, 0, 0,
                   4, 0, 0, 7, 4, 2])
     = Inr (qm_plain, good_stream [])"
proof -
  have p: "pq_load sample_env (pq_default sample_env) (good_stream ([4, 2] @ []))
             = Inr (gq_main, good_stream [])"
    by (simp add: sample_env_def gq_load_good gq_main_def)
  have f: "\<not> qm_qnorm qm_plain" by (simp add: qm_plain_def)
  from load_saved_plain [OF qm_plain_inv f p] show ?thesis
    by (simp add: qm_plain_def enc_bool_def enc64_2 enc64_4)
qed

lemma load_sample_short:
  "load sample_env QuantMatrix_default
     (good_stream [0, 2, 0, 0, 0, 0, 0, 0, 0, 4, 0, 0, 0, 0, 0, 0, 0, 3, 0, 0, 0, 0, 0, 0, 0,
                   4, 0, 0, 4, 2])
     = Inr (qm_short, good_stream [])"
proof -
  have p: "pq_load sample_env (pq_default sample_env) (good_stream ([4, 2] @ []))
             = Inr (gq_main, good_stream [])"
    by (simp add: sample_env_def gq_load_good gq_main_def)
  have f: "\<not> qm_qnorm qm_short" by (simp add: qm_short_def)
  have i: "qm_inv qm_short" by (simp add: qm_inv_def qm_short_def)
  from load_saved_plain [OF i f p] show ?thesis
    by (simp add: qm_short_def enc_bool_def enc64_2 enc64_3 enc64_4)
qed

section \<open>The dot product with a row\<close>

text \<open>
  C1. On an instance in the state that construction and loading establish, for a row
  index \<open>i\<close> with \<open>0 \<le> i < m_\<close> and a query of \<open>n_\<close> reals, \<^verbatim>\<open>dotRow\<close> returns what the
  main quantizer's \<^verbatim>\<open>mulcode\<close> gives for the query, the code buffer, the row \<open>i\<close> and the
  factor \<open>norm\<close>, where \<open>norm\<close> is 1 without norm quantization and otherwise the first
  real \<open>c\<close> of the centroid that the norm quantizer has in slot 0 for the code
  \<^verbatim>\<open>norm_codes_[i]\<close>.
\<close>

theorem dotRow_scaled_dot_product:
  assumes "qm_inv qm" and "qm_pq qm = Some pq"
    and "0 \<le> sint i" and "sint i < sint (qm_m qm)"
    and "int (length vec) = sint (qm_n qm)"
    and "qm_qnorm qm \<Longrightarrow>
           qm_npq qm = Some npq \<and>
           pq_get_centroids env npq 0 (qm_norm_codes qm ! nat (sint i)) = c # cs"
  shows "dotRow env qm vec i =
           Inr (pq_mulcode env pq vec (qm_codes qm) (sint i) (if qm_qnorm qm then c else 1))"
proof -
  have "row_norm env qm (sint i) = Inr (if qm_qnorm qm then c else 1)"
    using assms(1,3,4,6) by (rule row_norm_inv)
  with assms(2-5) show ?thesis by (simp add: dotRow_def)
qed

theorem dotRow_scaled_dot_product_witness:
  "qm_inv qm_normed \<and> qm_qnorm qm_normed \<and>
   dotRow sample_env qm_normed [3, 4, 0, 0] 0 = Inr 35"
  using dotRow_scaled_dot_product [of qm_normed gq_main 0 "[3, 4, 0, 0]" gq_norm sample_env
      5 "[]"] qm_normed_inv
  by (simp add: qm_normed_def sample_env_def gq_norm_centroid gq_mulcode_def gq_row_normed_0)

section \<open>Construction\<close>

text \<open>
  C2, as the code has it. When the constructor returns for a matrix of \<open>m \<ge> 0\<close> rows and
  \<open>n \<ge> 0\<close> columns and a sub-vector size \<open>d > 0\<close>, with \<open>n + d\<close> and \<open>m * ceil(n / d)\<close>
  in the range of a 64-bit integer, the instance has \<open>m\<close> rows, \<open>n\<close> columns and
  \<^verbatim>\<open>codesize_\<close> \<open>= m * ceil(n / d)\<close>. \<^verbatim>\<open>load\<close> does not check the sizes that it reads:
  the instance it gives for the bytes that \<^verbatim>\<open>save\<close> wrote has the rows, the columns and
  the \<^verbatim>\<open>codesize_\<close> of the saved instance, so that the equation is carried over to it.
\<close>

theorem codesize_of_construction:
  assumes "QuantMatrix env mat dsub qnorm = Inr qm"
    and "0 \<le> sint (dm_size0 mat)" and "0 \<le> sint (dm_size1 mat)" and "0 < sint dsub"
    and "sint (dm_size1 mat) + sint dsub \<le> 2 ^ 63"
    and "sint (dm_size0 mat)
           * \<lceil>real_of_int (sint (dm_size1 mat)) / real_of_int (sint dsub)\<rceil> < 2 ^ 63"
  shows "qm_m qm = dm_size0 mat \<and> qm_n qm = dm_size1 mat \<and>
         sint (qm_codesize qm)
           = sint (qm_m qm) * \<lceil>real_of_int (sint (qm_n qm)) / real_of_int (sint dsub)\<rceil> \<and>
         (\<forall>bytes qm' s'.
            save env qm [] = Inr bytes \<and>
            load env QuantMatrix_default (good_stream bytes) = Inr (qm', s') \<longrightarrow>
            qm_m qm' = qm_m qm \<and> qm_n qm' = qm_n qm \<and> qm_codesize qm' = qm_codesize qm)"
proof -
  from QuantMatrix_Inr [OF assms(1)] have inv: "qm_inv qm"
    and m: "qm_m qm = dm_size0 mat" and n: "qm_n qm = dm_size1 mat"
    and c: "qm_codesize qm
              = dm_size0 mat * int64_div (dm_size1 mat + scast dsub - 1) (scast dsub)"
    by simp_all
  have size: "sint (qm_codesize qm)
      = sint (qm_m qm) * \<lceil>real_of_int (sint (qm_n qm)) / real_of_int (sint dsub)\<rceil>"
    unfolding c m n using assms(2-6) by (rule codesize_value)
  have carried: "qm_m qm' = qm_m qm \<and> qm_n qm' = qm_n qm \<and> qm_codesize qm' = qm_codesize qm"
    if s: "save env qm [] = Inr bytes"
      and l: "load env QuantMatrix_default (good_stream bytes) = Inr (qm', s')"
    for bytes qm' s'
  proof -
    from inv obtain pq where pq: "qm_pq qm = Some pq" by (auto simp add: qm_inv_def)
    obtain npq where npq: "qm_qnorm qm \<Longrightarrow> qm_npq qm = Some npq"
      using inv by (cases "qm_npq qm") (auto simp add: qm_inv_def split: if_splits)
    from save_Inr [OF inv pq npq, of env "[]"] s obtain rest where
      "bytes = enc_bool (qm_qnorm qm) @ enc64 (qm_m qm) @ enc64 (qm_n qm)
                 @ enc64 (qm_codesize qm) @ rest"
      by auto
    with l show ?thesis by (auto dest: load_header)
  qed
  from m n size carried show ?thesis by blast
qed

theorem codesize_of_construction_witness:
  "QuantMatrix sample_env mat_2x4 2 False = Inr qm_plain \<and>
   sint (qm_m qm_plain) = 2 \<and> sint (qm_n qm_plain) = 4 \<and> sint (qm_codesize qm_plain) = 4 \<and>
   load sample_env QuantMatrix_default
     (good_stream [0, 2, 0, 0, 0, 0, 0, 0, 0, 4, 0, 0, 0, 0, 0, 0, 0, 4, 0, 0, 0, 0, 0, 0, 0,
                   4, 0, 0, 7, 4, 2])
     = Inr (qm_plain, good_stream [])"
  using codesize_of_construction [OF QuantMatrix_sample_plain] save_sample_plain
    load_sample_plain QuantMatrix_sample_plain
  by (simp add: mat_2x4_def)

text \<open>
  C2 as stated fails for loaded instances. A stream whose header gives 2 rows, 4 columns
  and 3 codes, followed by 3 codes and a quantizer with sub-vectors of size 2, is loaded
  into an instance with \<^verbatim>\<open>codesize_\<close> 3, where \<open>m * ceil(n / d)\<close> is 4.
\<close>

theorem codesize_of_loaded_counterexample:
  "load sample_env QuantMatrix_default
     (good_stream [0, 2, 0, 0, 0, 0, 0, 0, 0, 4, 0, 0, 0, 0, 0, 0, 0, 3, 0, 0, 0, 0, 0, 0, 0,
                   4, 0, 0, 4, 2])
     = Inr (qm_short, good_stream []) \<and>
   qm_pq qm_short = Some gq_main \<and>
   sint (qm_codesize qm_short) = 3 \<and>
   sint (qm_m qm_short)
     * \<lceil>real_of_int (sint (qm_n qm_short)) / real (gq_dsub gq_main)\<rceil> = 4"
  using load_sample_short by (simp add: qm_short_def gq_main_def)

text \<open>
  C3. \<^verbatim>\<open>quantize\<close> returns, and returns the instance \<open>qm'\<close>, exactly in these cases.
  With the flag: \<open>norms\<close> is the vector of one entry per row of the matrix (a new
  \<^verbatim>\<open>Vector\<close> of that size, zero before it is filled) that \<^verbatim>\<open>l2NormRow\<close> has filled, it
  has \<^verbatim>\<open>m_\<close> entries, the norm quantizer \<open>npq'\<close> is what \<^verbatim>\<open>train\<close> gives for \<^verbatim>\<open>m_\<close> and
  \<open>norms\<close>, the norm codes \<open>nc\<close> are what this quantizer computes for \<open>norms\<close> and \<^verbatim>\<open>m_\<close>
  vectors, written from the start of \<^verbatim>\<open>norm_codes_\<close>; the main quantizer \<open>pq'\<close> is what
  \<^verbatim>\<open>train\<close> gives for \<^verbatim>\<open>m_\<close> and the data of the matrix after \<^verbatim>\<open>divideRow\<close> by \<open>norms\<close>,
  the codes \<open>cs\<close> are what this quantizer computes for that data and \<^verbatim>\<open>m_\<close> rows, written
  from the start of \<^verbatim>\<open>codes_\<close>; and \<open>qm'\<close> is the instance with these two quantizers and
  these two buffers. Without the flag: the main quantizer is trained on the data as it
  is given and computes the codes from it, and \<open>qm'\<close> is the instance with this quantizer
  and these codes, the norm quantizer and the norm codes being left as they were.
\<close>

theorem quantize_steps:
  "quantize env qm mat = Inr qm' \<longleftrightarrow>
     (if qm_qnorm qm
      then \<exists>norms npq npq' nc pq pq' cs.
             0 \<le> sint (dm_size0 mat) \<and>
             norms = l2NormRow env mat (replicate (nat (sint (dm_size0 mat))) 0) \<and>
             int (length norms) = sint (qm_m qm) \<and>
             qm_npq qm = Some npq \<and>
             pq_train env npq (sint (qm_m qm)) norms = Inr npq' \<and>
             write_at (qm_norm_codes qm)
                 (pq_compute_codes env npq' norms (sint (qm_m qm))) = Inr nc \<and>
             qm_pq qm = Some pq \<and>
             pq_train env pq (sint (qm_m qm)) (dm_data (divideRow env mat norms))
               = Inr pq' \<and>
             write_at (qm_codes qm)
                 (pq_compute_codes env pq' (dm_data (divideRow env mat norms))
                    (sint (qm_m qm))) = Inr cs \<and>
             qm' = qm\<lparr>qm_pq := Some pq', qm_npq := Some npq', qm_codes := cs,
                       qm_norm_codes := nc\<rparr>
      else \<exists>pq pq' cs.
             qm_pq qm = Some pq \<and>
             pq_train env pq (sint (qm_m qm)) (dm_data mat) = Inr pq' \<and>
             write_at (qm_codes qm)
                 (pq_compute_codes env pq' (dm_data mat) (sint (qm_m qm))) = Inr cs \<and>
             qm' = qm\<lparr>qm_pq := Some pq', qm_codes := cs\<rparr>)"
proof (cases "qm_qnorm qm")
  case False
  then show ?thesis by (simp add: quantize_plain quantize_main_iff)
next
  case True
  have "quantize env qm mat = Inr qm' \<longleftrightarrow>
          0 \<le> sint (dm_size0 mat) \<and>
          (\<exists>qm1. quantizeNorm env qm
                    (l2NormRow env mat (replicate (nat (sint (dm_size0 mat))) 0)) = Inr qm1 \<and>
                 quantize_main env qm1
                    (divideRow env mat
                       (l2NormRow env mat (replicate (nat (sint (dm_size0 mat))) 0)))
                   = Inr qm')"
    using True by (auto simp add: quantize_def vector_resize_def bind_result_Inr Let_def)
  also have "\<dots> \<longleftrightarrow> (\<exists>norms npq npq' nc pq pq' cs.
             0 \<le> sint (dm_size0 mat) \<and>
             norms = l2NormRow env mat (replicate (nat (sint (dm_size0 mat))) 0) \<and>
             int (length norms) = sint (qm_m qm) \<and>
             qm_npq qm = Some npq \<and>
             pq_train env npq (sint (qm_m qm)) norms = Inr npq' \<and>
             write_at (qm_norm_codes qm)
                 (pq_compute_codes env npq' norms (sint (qm_m qm))) = Inr nc \<and>
             qm_pq qm = Some pq \<and>
             pq_train env pq (sint (qm_m qm)) (dm_data (divideRow env mat norms))
               = Inr pq' \<and>
             write_at (qm_codes qm)
                 (pq_compute_codes env pq' (dm_data (divideRow env mat norms))
                    (sint (qm_m qm))) = Inr cs \<and>
             qm' = qm\<lparr>qm_pq := Some pq', qm_npq := Some npq', qm_codes := cs,
                       qm_norm_codes := nc\<rparr>)"
    using True by (auto simp add: quantizeNorm_iff quantize_main_iff)
  finally show ?thesis using True by simp
qed

theorem quantize_steps_witness:
  "quantize sample_env qm_blank mat_2x4 = Inr qm_normed \<and> qm_qnorm qm_blank \<and>
   l2NormRow sample_env mat_2x4 [0, 0] = [5, 10] \<and>
   dm_data (divideRow sample_env mat_2x4 [5, 10]) = [3 / 5, 4 / 5, 0, 0, 0, 0, 3 / 5, 4 / 5] \<and>
   qm_npq qm_normed = Some gq_norm \<and> qm_norm_codes qm_normed = [5, 10] \<and>
   qm_pq qm_normed = Some gq_main \<and> qm_codes qm_normed = [1, 0, 0, 1]"
  using quantize_steps [of sample_env qm_blank mat_2x4 qm_normed] quantize_sample_normed
  by (simp add: qm_blank_def qm_normed_def sample_env_def sample_norms sample_divided)

section \<open>The round trip\<close>

text \<open>
  C4. Let \<open>x\<close> be an instance that the constructor returns, and let its quantizers
  reload: the bytes that the main quantizer saves load into a quantizer \<open>p'\<close> with the
  centroids, dot products and accumulations of the original, and so for the norm
  quantizer under the flag. Then loading, into a new instance, the bytes that \<^verbatim>\<open>save\<close>
  wrote for \<open>x\<close> returns, consumes all of them and gives an instance with the \<^verbatim>\<open>m_\<close>,
  \<^verbatim>\<open>n_\<close>, \<^verbatim>\<open>codesize_\<close>, codes, flag and norm codes of \<open>x\<close>, with the reloaded quantizers,
  and on which \<^verbatim>\<open>dotRow\<close> and both forms of \<^verbatim>\<open>addRowToVector\<close> give, for all arguments,
  what they give on \<open>x\<close>.
\<close>

theorem save_load_round_trip:
  assumes "QuantMatrix env mat dsub qnorm = Inr x"
    and "qm_pq x = Some p" and "pq_reloads env p p'" and "pq_same env p p'"
    and "qnorm \<Longrightarrow> qm_npq x = Some np \<and> pq_reloads env np np' \<and> pq_same env np np'"
    and "save env x [] = Inr bytes"
  shows "\<exists>x'. load env QuantMatrix_default (good_stream bytes) = Inr (x', good_stream []) \<and>
           qm_m x' = qm_m x \<and> qm_n x' = qm_n x \<and> qm_codesize x' = qm_codesize x \<and>
           qm_codes x' = qm_codes x \<and> qm_qnorm x' = qm_qnorm x \<and>
           qm_norm_codes x' = qm_norm_codes x \<and>
           qm_pq x' = Some p' \<and> qm_npq x' = (if qnorm then Some np' else None) \<and>
           (\<forall>vec i. dotRow env x' vec i = dotRow env x vec i) \<and>
           (\<forall>acc i a. addRowToVector_scaled env x' acc i a
                         = addRowToVector_scaled env x acc i a) \<and>
           (\<forall>acc i. addRowToVector env x' acc i = addRowToVector env x acc i)"
proof -
  from QuantMatrix_Inr [OF assms(1)] have inv: "qm_inv x" and q: "qm_qnorm x = qnorm"
    by simp_all
  define x' where
    "x' = (if qnorm then x\<lparr>qm_pq := Some p', qm_npq := Some np'\<rparr> else x\<lparr>qm_pq := Some p'\<rparr>)"
  have shape: "if qm_qnorm x
               then qm_npq x = Some np \<and> pq_same env np np' \<and>
                    x' = x\<lparr>qm_pq := Some p', qm_npq := Some np'\<rparr>
               else x' = x\<lparr>qm_pq := Some p'\<rparr>"
    using assms(5) by (simp add: x'_def q)
  have npq: "qm_qnorm x \<Longrightarrow> qm_npq x = Some np" using assms(5) q by simp
  have l: "load env QuantMatrix_default (good_stream bytes) = Inr (x', good_stream [])"
  proof (cases qnorm)
    case False
    from assms(3) have
      "pq_load env (pq_default env) (good_stream (pq_save env p @ [])) = Inr (p', good_stream [])"
      unfolding pq_reloads_def by blast
    from load_saved_plain [OF inv _ this] False q
    have "load env QuantMatrix_default
            (good_stream (enc_bool (qm_qnorm x) @ enc64 (qm_m x) @ enc64 (qm_n x)
               @ enc64 (qm_codesize x) @ qm_codes x @ pq_save env p @ []))
          = Inr (x', good_stream [])"
      by (simp add: x'_def)
    moreover from save_Inr [OF inv assms(2) npq, of env "[]"] assms(6) False q
    have "bytes = enc_bool (qm_qnorm x) @ enc64 (qm_m x) @ enc64 (qm_n x)
                    @ enc64 (qm_codesize x) @ qm_codes x @ pq_save env p @ []"
      by simp
    ultimately show ?thesis by simp
  next
    case True
    with assms(5) have r: "pq_reloads env np np'" by simp
    from assms(3) have
      "pq_load env (pq_default env)
         (good_stream (pq_save env p @ qm_norm_codes x @ pq_save env np @ []))
       = Inr (p', good_stream (qm_norm_codes x @ pq_save env np @ []))"
      unfolding pq_reloads_def by blast
    moreover from r have
      "pq_load env (pq_default env) (good_stream (pq_save env np @ []))
       = Inr (np', good_stream [])"
      unfolding pq_reloads_def by blast
    ultimately have
      "load env QuantMatrix_default
         (good_stream (enc_bool (qm_qnorm x) @ enc64 (qm_m x) @ enc64 (qm_n x)
            @ enc64 (qm_codesize x) @ qm_codes x @ pq_save env p @ qm_norm_codes x
            @ pq_save env np @ []))
       = Inr (x', good_stream [])"
      using load_saved_normed [OF inv, of env "pq_save env p" "pq_save env np" "[]" p' np']
        True q
      by (simp add: x'_def)
    moreover from save_Inr [OF inv assms(2) npq, of env "[]"] assms(6) True q
    have "bytes = enc_bool (qm_qnorm x) @ enc64 (qm_m x) @ enc64 (qm_n x)
                    @ enc64 (qm_codesize x) @ qm_codes x @ pq_save env p @ qm_norm_codes x
                    @ pq_save env np @ []"
      by simp
    ultimately show ?thesis by simp
  qed
  have fields: "qm_m x' = qm_m x" "qm_n x' = qm_n x" "qm_codesize x' = qm_codesize x"
    "qm_codes x' = qm_codes x" "qm_qnorm x' = qm_qnorm x" "qm_norm_codes x' = qm_norm_codes x"
    "qm_pq x' = Some p'"
    by (simp_all add: x'_def)
  have n: "qm_npq x' = (if qnorm then Some np' else None)"
    using inv q by (auto simp add: x'_def qm_inv_def)
  from l fields n reloaded_behaviour [OF assms(2) assms(4) shape] show ?thesis by blast
qed

theorem save_load_round_trip_witness:
  "QuantMatrix sample_env mat_2x4 2 True = Inr qm_normed \<and>
   save sample_env qm_normed [] =
     Inr [1, 2, 0, 0, 0, 0, 0, 0, 0, 4, 0, 0, 0, 0, 0, 0, 0, 4, 0, 0, 0, 0, 0, 0, 0,
          1, 0, 0, 1, 4, 2, 5, 10, 1, 1] \<and>
   (\<exists>x'. load sample_env QuantMatrix_default
            (good_stream [1, 2, 0, 0, 0, 0, 0, 0, 0, 4, 0, 0, 0, 0, 0, 0, 0,
                          4, 0, 0, 0, 0, 0, 0, 0, 1, 0, 0, 1, 4, 2, 5, 10, 1, 1])
            = Inr (x', good_stream []) \<and>
          qm_codes x' = [1, 0, 0, 1] \<and> qm_norm_codes x' = [5, 10] \<and>
          dotRow sample_env x' [3, 4, 0, 0] 0 = dotRow sample_env qm_normed [3, 4, 0, 0] 0)"
proof -
  have h: "True \<Longrightarrow> qm_npq qm_normed = Some gq_norm \<and> pq_reloads sample_env gq_norm gq_norm \<and>
                     pq_same sample_env gq_norm gq_norm"
    by (simp add: qm_normed_def gq_norm_reloads pq_same_refl)
  have p: "qm_pq qm_normed = Some gq_main" by (simp add: qm_normed_def)
  from save_load_round_trip [OF QuantMatrix_sample_normed p gq_main_reloads pq_same_refl h
      save_sample_normed]
  obtain x' where
    "load sample_env QuantMatrix_default
       (good_stream [1, 2, 0, 0, 0, 0, 0, 0, 0, 4, 0, 0, 0, 0, 0, 0, 0,
                     4, 0, 0, 0, 0, 0, 0, 0, 1, 0, 0, 1, 4, 2, 5, 10, 1, 1])
       = Inr (x', good_stream [])"
    "qm_codes x' = qm_codes qm_normed" "qm_norm_codes x' = qm_norm_codes qm_normed"
    "dotRow sample_env x' [3, 4, 0, 0] 0 = dotRow sample_env qm_normed [3, 4, 0, 0] 0"
    by blast
  with QuantMatrix_sample_normed save_sample_normed show ?thesis
    by (auto simp add: qm_normed_def)
qed

section \<open>The bytes that save writes\<close>

text \<open>
  C5. On an instance in the state that construction and loading establish, \<^verbatim>\<open>save\<close>
  appends to the stream exactly: the one byte of the flag, the eight bytes each of
  \<^verbatim>\<open>m_\<close>, \<^verbatim>\<open>n_\<close> and \<^verbatim>\<open>codesize_\<close>, the code buffer, which has \<^verbatim>\<open>codesize_\<close> bytes, what
  the main quantizer's \<^verbatim>\<open>save\<close> writes and, under the flag only, the norm codes, which
  are \<^verbatim>\<open>m_\<close> bytes, and what the norm quantizer's \<^verbatim>\<open>save\<close> writes.
\<close>

theorem save_layout:
  assumes "qm_inv qm" and "qm_pq qm = Some pq"
    and "qm_qnorm qm \<Longrightarrow> qm_npq qm = Some npq"
  shows "save env qm out =
           Inr (out @ enc_bool (qm_qnorm qm) @ enc64 (qm_m qm) @ enc64 (qm_n qm)
                @ enc64 (qm_codesize qm) @ qm_codes qm @ pq_save env pq
                @ (if qm_qnorm qm then qm_norm_codes qm @ pq_save env npq else [])) \<and>
         length (enc_bool (qm_qnorm qm)) = 1 \<and> length (enc64 (qm_m qm)) = 8 \<and>
         length (enc64 (qm_n qm)) = 8 \<and> length (enc64 (qm_codesize qm)) = 8 \<and>
         int (length (qm_codes qm)) = sint (qm_codesize qm) \<and>
         (if qm_qnorm qm then int (length (qm_norm_codes qm)) = sint (qm_m qm)
          else qm_norm_codes qm = [])"
proof -
  have "int (length (qm_codes qm)) = sint (qm_codesize qm)"
    and "if qm_qnorm qm then int (length (qm_norm_codes qm)) = sint (qm_m qm)
         else qm_norm_codes qm = []"
    using assms(1) by (simp_all add: qm_inv_def split: if_splits)
  with save_Inr [OF assms, of env out] show ?thesis
    by (simp add: length_enc_bool length_enc64)
qed

theorem save_layout_witness:
  "qm_inv qm_normed \<and> qm_qnorm qm_normed \<and>
   save sample_env qm_normed [] =
     Inr ([1] @ [2, 0, 0, 0, 0, 0, 0, 0] @ [4, 0, 0, 0, 0, 0, 0, 0] @ [4, 0, 0, 0, 0, 0, 0, 0]
          @ [1, 0, 0, 1] @ [4, 2] @ [5, 10] @ [1, 1])"
  using save_layout [of qm_normed gq_main gq_norm sample_env "[]"] qm_normed_inv
  by (simp add: qm_normed_def sample_env_def gq_save_main gq_save_norm enc_bool_def
      enc64_2 enc64_4)

section \<open>The norm flag\<close>

text \<open>
  C6. For every instance that the constructor returns and every instance that \<^verbatim>\<open>load\<close>
  returns for a new instance, the norm quantizer is there if and only if the flag is set;
  with the flag there are \<^verbatim>\<open>m_\<close> norm codes, without it there are none.
\<close>

theorem norm_flag_consistency:
  assumes "QuantMatrix env mat dsub qnorm = Inr qm \<or>
           load env QuantMatrix_default s = Inr (qm, s')"
  shows "(qm_npq qm \<noteq> None \<longleftrightarrow> qm_qnorm qm) \<and>
         (if qm_qnorm qm then int (length (qm_norm_codes qm)) = sint (qm_m qm)
          else qm_norm_codes qm = [])"
proof -
  from assms have "qm_inv qm"
    by (auto dest: QuantMatrix_Inr load_default_inv)
  then show ?thesis by (auto simp add: qm_inv_def split: if_splits)
qed

theorem norm_flag_consistency_witness:
  "QuantMatrix sample_env mat_2x4 2 True = Inr qm_normed \<and>
   qm_qnorm qm_normed \<and> qm_npq qm_normed = Some gq_norm \<and> length (qm_norm_codes qm_normed) = 2 \<and>
   load sample_env QuantMatrix_default
     (good_stream [0, 2, 0, 0, 0, 0, 0, 0, 0, 4, 0, 0, 0, 0, 0, 0, 0, 4, 0, 0, 0, 0, 0, 0, 0,
                   4, 0, 0, 7, 4, 2])
     = Inr (qm_plain, good_stream []) \<and>
   \<not> qm_qnorm qm_plain \<and> qm_npq qm_plain = None \<and> qm_norm_codes qm_plain = []"
  using norm_flag_consistency [of sample_env mat_2x4 2 True qm_normed "good_stream []"
      "good_stream []"]
    norm_flag_consistency [of sample_env mat_2x4 2 False qm_plain
      "good_stream [0, 2, 0, 0, 0, 0, 0, 0, 0, 4, 0, 0, 0, 0, 0, 0, 0, 4, 0, 0, 0, 0, 0, 0, 0,
                    4, 0, 0, 7, 4, 2]" "good_stream []"]
    QuantMatrix_sample_normed load_sample_plain
  by (simp add: qm_normed_def qm_plain_def)

section \<open>Argument checks\<close>

text \<open>
  C7, as the code has it. \<^verbatim>\<open>dotRow\<close> stops on a failed assertion for every row index
  below 0 or not below \<^verbatim>\<open>m_\<close> and for every query whose length is not \<^verbatim>\<open>n_\<close>.
\<close>

theorem dotRow_asserts_arguments:
  assumes "sint i < 0 \<or> sint (qm_m qm) \<le> sint i \<or> int (length vec) \<noteq> sint (qm_n qm)"
  shows "dotRow env qm vec i = Inl AssertionFailed"
  using assms by (auto simp add: dotRow_def)

theorem dotRow_asserts_arguments_witness:
  "dotRow sample_env qm_plain [3, 4, 0, 0] 2 = Inl AssertionFailed \<and>
   dotRow sample_env qm_plain [3, 4, 0, 0] (- 1) = Inl AssertionFailed \<and>
   dotRow sample_env qm_plain [3, 4, 0, 0, 0] 0 = Inl AssertionFailed"
  using dotRow_asserts_arguments [of 2 qm_plain "[3, 4, 0, 0]" sample_env]
    dotRow_asserts_arguments [of "- 1" qm_plain "[3, 4, 0, 0]" sample_env]
    dotRow_asserts_arguments [of 0 qm_plain "[3, 4, 0, 0, 0]" sample_env]
  by (simp add: qm_plain_def)

text \<open>
  C7 as stated fails: \<^verbatim>\<open>addRowToVector\<close> has no check. On the sample of 4 columns, an
  accumulator of 5 reals and the row 0 give a result in both forms.
\<close>

theorem addRowToVector_unchecked_counterexample:
  "sint (qm_n qm_plain) = 4 \<and>
   addRowToVector_scaled sample_env qm_plain [0, 0, 0, 0, 0] 0 1 = Inr [4, 4, 0, 0, 0] \<and>
   addRowToVector sample_env qm_plain [0, 0, 0, 0, 0] 0 = Inr [4, 4, 0, 0, 0]"
  by (simp add: addRowToVector_def addRowToVector_scaled_def row_norm_def qm_plain_def
      sample_env_def gq_addcode_def gq_row_plain_0)

section \<open>The operations that are refused\<close>

text \<open>
  C8. On every instance and for every argument, \<^verbatim>\<open>addVectorToRow\<close> and \<^verbatim>\<open>dump\<close> throw
  the runtime error whose message is "Operation not permitted on quantized matrices.",
  the instance after \<^verbatim>\<open>addVectorToRow\<close> is the instance before it, and \<^verbatim>\<open>dump\<close>, which
  cannot change the instance, writes nothing to its stream.
\<close>

theorem disallowed_operations_refuse:
  "addVectorToRow qm vec i a =
     (Inl (RuntimeError ''Operation not permitted on quantized matrices.''), qm) \<and>
   dump qm out =
     (Inl (RuntimeError ''Operation not permitted on quantized matrices.''), out)"
  by (simp add: addVectorToRow_def dump_def)

section \<open>Adding a row to a vector\<close>

text \<open>
  C10. For every instance, accumulator and row index, \<^verbatim>\<open>addRowToVector(x, i)\<close> gives what
  \<^verbatim>\<open>addRowToVector(x, i, 1)\<close> gives, the same accumulator or the same failure: the norm
  is a factor once in both.
\<close>

theorem addRowToVector_default_scale_is_one:
  "addRowToVector env qm x i = addRowToVector_scaled env qm x i 1"
  by (simp add: addRowToVector_def addRowToVector_scaled_def cong: option.case_cong)

text \<open>
  C9, as the code has it. On an instance in the state that construction and loading
  establish, and for a row index that is valid where the norm codes are read, the form
  with a scale adds through the main quantizer's \<^verbatim>\<open>addcode\<close> with the factor
  \<open>scale * norm\<close>, and the form without one with the factor \<open>1 * norm\<close>, where \<open>norm\<close> is
  1 without norm quantization and the reconstructed norm of the row with it: the scale
  of the short form is 1 in both cases. The result is the accumulator; the instance is
  not changed.
\<close>

theorem addRowToVector_adds_scaled_row:
  assumes "qm_inv qm" and "qm_pq qm = Some pq"
    and "qm_qnorm qm \<Longrightarrow>
           0 \<le> sint i \<and> sint i < sint (qm_m qm) \<and> qm_npq qm = Some npq \<and>
           pq_get_centroids env npq 0 (qm_norm_codes qm ! nat (sint i)) = c # cs"
  shows "addRowToVector_scaled env qm x i a =
           Inr (pq_addcode env pq x (qm_codes qm) (sint i)
                  (a * (if qm_qnorm qm then c else 1))) \<and>
         addRowToVector env qm x i =
           Inr (pq_addcode env pq x (qm_codes qm) (sint i)
                  (1 * (if qm_qnorm qm then c else 1)))"
proof -
  have "row_norm env qm (sint i) = Inr (if qm_qnorm qm then c else 1)"
  proof (cases "qm_qnorm qm")
    case True
    with assms(1,3) show ?thesis by (simp add: row_norm_inv [where npq = npq and cs = cs])
  next
    case False
    then show ?thesis by (simp add: row_norm_plain)
  qed
  with assms(2) show ?thesis
    by (simp add: addRowToVector_def addRowToVector_scaled_def)
qed

theorem addRowToVector_adds_scaled_row_witness:
  "qm_inv qm_normed \<and> qm_qnorm qm_normed \<and>
   addRowToVector_scaled sample_env qm_normed [1, 1, 1, 1] 0 2 = Inr [11, 11, 1, 1] \<and>
   addRowToVector sample_env qm_normed [1, 1, 1, 1] 0 = Inr [6, 6, 1, 1]"
  using addRowToVector_adds_scaled_row [of qm_normed gq_main 0 gq_norm sample_env 5
      "[]" "[1, 1, 1, 1]" 2] qm_normed_inv
  by (simp add: qm_normed_def sample_env_def gq_norm_centroid gq_addcode_def
      gq_row_normed_0)

text \<open>
  C9 as stated fails: on the sample with norm quantization the reconstructed norm of
  row 0 is 5; the short form adds 5 times the reconstructed row, the form with the scale
  5 adds 25 times that row.
\<close>

theorem addRowToVector_default_scale_counterexample:
  "row_norm sample_env qm_normed 0 = Inr 5 \<and>
   addRowToVector sample_env qm_normed [0, 0, 0, 0] 0 = Inr [5, 5, 0, 0] \<and>
   addRowToVector_scaled sample_env qm_normed [0, 0, 0, 0] 0 5 = Inr [25, 25, 0, 0]"
  by (simp add: addRowToVector_def addRowToVector_scaled_def row_norm_def qm_normed_def
      sample_env_def gq_norm_centroid gq_addcode_def gq_row_normed_0)

end
